theory Spec2Isabelle
  imports Complex_Main
begin

section \<open>Python values and errors\<close>

text \<open>
  The values that reach the functions of \<^verbatim>\<open>extraction.py\<close>, \<^verbatim>\<open>database.py\<close> and
  \<^verbatim>\<open>base_features.py\<close> as year, limit, identifier and row fields: \<^verbatim>\<open>None\<close>, booleans,
  (unbounded) integers and strings. Other Python objects (floats, containers) are outside
  this type.
\<close>

datatype pyval = PyNone | PyBool bool | PyInt int | PyStr string

text \<open>Every raise of the modelled code is a value of this type.\<close>

datatype error =
    KeyError string          \<comment> \<open>\<^verbatim>\<open>row[k]\<close> on a missing column\<close>
  | TypeError                \<comment> \<open>\<^verbatim>\<open>float(None)\<close>\<close>
  | ValueError               \<comment> \<open>\<^verbatim>\<open>float(s)\<close> on text that is no number\<close>
  | UnpicklingError          \<comment> \<open>\<^verbatim>\<open>pd.read_pickle\<close> on a file that holds no pickled table\<close>
  | DatabaseError string     \<comment> \<open>raised by the engine while running a statement\<close>
  | InvalidTextRepresentation  \<comment> \<open>SQL \<^verbatim>\<open>CAST\<close> of malformed text\<close>
  | NumericValueOutOfRange     \<comment> \<open>SQL \<^verbatim>\<open>CAST(... AS INTEGER)\<close> beyond 32 bits\<close>
  | DivisionByZero             \<comment> \<open>SQL division by zero\<close>

definition bind_err :: "error + 'a \<Rightarrow> ('a \<Rightarrow> error + 'b) \<Rightarrow> error + 'b" where
  "bind_err m f = (case m of Inl e \<Rightarrow> Inl e | Inr x \<Rightarrow> f x)"

subsection \<open>\<^verbatim>\<open>str()\<close> and truthiness\<close>

definition digit_char :: "nat \<Rightarrow> char" where
  "digit_char d = ''0123456789'' ! d"

function str_nat :: "nat \<Rightarrow> string" where
  "str_nat n = (if n < 10 then [digit_char n] else str_nat (n div 10) @ [digit_char (n mod 10)])"
  by pat_completeness auto
termination
  by (relation "measure id") auto

declare str_nat.simps [simp del]

definition str_int :: "int \<Rightarrow> string" where
  "str_int i = (if i < 0 then CHR ''-'' # str_nat (nat (- i)) else str_nat (nat i))"

text \<open>\<^verbatim>\<open>f"{v}"\<close> formats \<^verbatim>\<open>v\<close> with \<^verbatim>\<open>str\<close>.\<close>

fun py_str :: "pyval \<Rightarrow> string" where
  "py_str PyNone = ''None''"
| "py_str (PyBool b) = (if b then ''True'' else ''False'')"
| "py_str (PyInt i) = str_int i"
| "py_str (PyStr s) = s"

text \<open>The test \<^verbatim>\<open>if v\<close>.\<close>

fun truthy :: "pyval \<Rightarrow> bool" where
  "truthy PyNone = False"
| "truthy (PyBool b) = b"
| "truthy (PyInt i) = (i \<noteq> 0)"
| "truthy (PyStr s) = (s \<noteq> [])"

section \<open>\<^verbatim>\<open>database.py\<close>: the cached query executor\<close>

type_synonym params = "(string \<times> pyval) list"

text \<open>
  A file of the cache directory either holds a table written by \<^verbatim>\<open>to_pickle\<close> or
  something \<^verbatim>\<open>read_pickle\<close> cannot load.
\<close>

datatype 'tbl stored = Pickle 'tbl | Garbage

text \<open>
  The environment of a call: the directory of the module (\<^verbatim>\<open>os.path.dirname(__file__)\<close>)
  and the database engine behind \<^verbatim>\<open>pd.read_sql_query\<close>, which maps a statement and its
  bound parameters to a table or raises.
\<close>

record 'tbl env =
  module_dir :: string
  read_sql_query :: "string \<Rightarrow> params option \<Rightarrow> error + 'tbl"

text \<open>
  The state a call can change: the files of the file system, and the log of the
  statements handed to \<^verbatim>\<open>execute_query\<close>, in order.
\<close>

record 'tbl world =
  files :: "string \<rightharpoonup> 'tbl stored"
  executed :: "(string \<times> params option) list"

definition path_join :: "string \<Rightarrow> string \<Rightarrow> string" where
  \<comment> \<open>\<^verbatim>\<open>os.path.join\<close> of two components on POSIX\<close>
  "path_join a b =
     (if b \<noteq> [] \<and> hd b = CHR ''/'' then b
      else if a = [] \<or> last a = CHR ''/'' then a @ b
      else a @ ''/'' @ b)"

definition cache_path :: "'tbl env \<Rightarrow> string \<Rightarrow> string" where
  "cache_path ev cache_name =
     path_join (path_join (module_dir ev) ''../../data/cache'') (cache_name @ ''.pkl'')"

definition execute_query ::
  "'tbl env \<Rightarrow> string \<Rightarrow> params option \<Rightarrow> 'tbl world \<Rightarrow> (error + 'tbl) \<times> 'tbl world" where
  "execute_query ev query ps w =
     (let w' = w\<lparr>executed := executed w @ [(query, ps)]\<rparr> in
      case ps of
        Some (p # ps') \<Rightarrow> (read_sql_query ev query (Some (p # ps')), w')
      | _ \<Rightarrow> (read_sql_query ev query None, w'))"

definition read_pickle :: "'tbl world \<Rightarrow> string \<Rightarrow> error + 'tbl" where
  "read_pickle w path =
     (case files w path of Some (Pickle t) \<Rightarrow> Inr t | _ \<Rightarrow> Inl UnpicklingError)"

definition query_with_cache ::
  "'tbl env \<Rightarrow> string \<Rightarrow> string \<Rightarrow> bool \<Rightarrow> params option \<Rightarrow> 'tbl world
     \<Rightarrow> (error + 'tbl) \<times> 'tbl world" where
  "query_with_cache ev query cache_name force_refresh ps w =
     (if \<not> force_refresh \<and> files w (cache_path ev cache_name) \<noteq> None
      then (read_pickle w (cache_path ev cache_name), w)
      else
        (case execute_query ev query ps w of
           (Inl e, w') \<Rightarrow> (Inl e, w')
         | (Inr df, w') \<Rightarrow>
             (Inr df, w'\<lparr>files := (files w')(cache_path ev cache_name \<mapsto> Pickle df)\<rparr>)))"

section \<open>\<^verbatim>\<open>extraction.py\<close>: statements, parameters and cache names\<close>

definition newline :: string where
  "newline = [CHR 0x0A]"

definition template_lines :: "string list \<Rightarrow> string" where
  \<comment> \<open>the text of a triple-quoted template up to its spliced fragment\<close>
  "template_lines ls = newline @ concat (map (\<lambda>l. l @ newline) ls)"

definition limit_clause :: "pyval \<Rightarrow> string" where
  "limit_clause limit = (if truthy limit then ''LIMIT '' @ py_str limit else [])"

definition race_base_select :: "string list" where
  "race_base_select =
  [''    SELECT '',
   ''        kaisai_nen, '',
   ''        kaisai_tsukihi, '',
   ''        keibajo_code, '',
   ''        race_bango,'',
   ''        kyori, '',
   ''        track_code, '',
   ''        tenko_code, '',
   ''        CASE '',
   ''            WHEN SUBSTRING(track_code, 1, 1) = '1' THEN babajotai_code_shiba '',
   ''            ELSE babajotai_code_dirt '',
   ''        END as baba_jotai,'',
   ''        shusso_tosu'',
   ''    FROM jvd_ra'',
   ''    WHERE kaisai_nen BETWEEN :start_year AND :end_year'',
   ''    ORDER BY kaisai_nen, kaisai_tsukihi, keibajo_code, race_bango'']"

definition race_base_query :: "pyval \<Rightarrow> string" where
  "race_base_query limit =
     template_lines race_base_select @ ''    '' @ limit_clause limit @ newline @ ''    ''"

definition race_base_cache_name :: "pyval \<Rightarrow> pyval \<Rightarrow> pyval \<Rightarrow> string" where
  "race_base_cache_name start_year end_year limit =
     ''race_base_'' @ py_str start_year @ ''_'' @ py_str end_year @ ''_'' @ py_str limit"

definition year_params :: "pyval \<Rightarrow> pyval \<Rightarrow> params" where
  "year_params start_year end_year = [(''start_year'', start_year), (''end_year'', end_year)]"

definition get_race_base_info ::
  "'tbl env \<Rightarrow> pyval \<Rightarrow> pyval \<Rightarrow> pyval \<Rightarrow> 'tbl world \<Rightarrow> (error + 'tbl) \<times> 'tbl world" where
  "get_race_base_info ev start_year end_year limit w =
     query_with_cache ev (race_base_query limit)
       (race_base_cache_name start_year end_year limit) False
       (Some (year_params start_year end_year)) w"

definition race_horse_select :: "string list" where
  "race_horse_select =
  [''    SELECT '',
   ''        r.kaisai_nen, '',
   ''        r.kaisai_tsukihi, '',
   ''        r.keibajo_code, '',
   ''        r.race_bango,'',
   ''        r.kyori, '',
   ''        r.track_code, '',
   ''        r.tenko_code, '',
   ''        CASE '',
   ''            WHEN SUBSTRING(r.track_code, 1, 1) = '1' THEN r.babajotai_code_shiba '',
   ''            ELSE r.babajotai_code_dirt '',
   ''        END as baba_jotai,'',
   ''        r.shusso_tosu, '',
   ''        s.ketto_toroku_bango, '',
   ''        TRIM(s.bamei) AS bamei, '',
   ''        s.wakuban, '',
   ''        s.umaban,'',
   ''        s.kishu_code, '',
   ''        TRIM(s.kishumei_ryakusho) AS kishumei_ryakusho, '',
   ''        s.chokyoshi_code, '',
   ''        TRIM(s.chokyoshimei_ryakusho) AS chokyoshimei_ryakusho,'',
   ''        s.barei, '',
   ''        s.seibetsu_code, '',
   ''        s.bataiju, '',
   ''        s.zogen_fugo, '',
   ''        s.zogen_sa,'',
   ''        s.blinker_shiyo_kubun, '',
   ''        s.kakutei_chakujun, '',
   ''        s.soha_time, '',
   ''        s.kohan_3f,'',
   ''        s.tansho_odds, '',
   ''        s.tansho_ninkijun,'',
   ''        u.seinengappi,'',
   ''        u.ketto_joho_01a as chichiuma_id, '',
   ''        TRIM(u.ketto_joho_01b) as chichiuma_name,'',
   ''        u.ketto_joho_02a as hahauma_id, '',
   ''        TRIM(u.ketto_joho_02b) as hahauma_name'',
   ''    FROM jvd_ra r'',
   ''    JOIN jvd_se s ON r.kaisai_nen = s.kaisai_nen '',
   ''                   AND r.kaisai_tsukihi = s.kaisai_tsukihi'',
   ''                   AND r.keibajo_code = s.keibajo_code'',
   ''                   AND r.race_bango = s.race_bango'',
   ''    LEFT JOIN jvd_um u ON s.ketto_toroku_bango = u.ketto_toroku_bango'',
   ''    WHERE r.kaisai_nen BETWEEN :start_year AND :end_year'',
   ''    ORDER BY r.kaisai_nen, r.kaisai_tsukihi, r.keibajo_code, r.race_bango, s.wakuban'']"

definition race_horse_query :: "pyval \<Rightarrow> string" where
  "race_horse_query limit =
     template_lines race_horse_select @ ''    '' @ limit_clause limit @ newline @ ''    ''"

definition race_horse_cache_name :: "pyval \<Rightarrow> pyval \<Rightarrow> pyval \<Rightarrow> string" where
  "race_horse_cache_name start_year end_year limit =
     ''race_horse_'' @ py_str start_year @ ''_'' @ py_str end_year @ ''_'' @ py_str limit"

definition get_race_and_horse_data ::
  "'tbl env \<Rightarrow> pyval \<Rightarrow> pyval \<Rightarrow> pyval \<Rightarrow> 'tbl world \<Rightarrow> (error + 'tbl) \<times> 'tbl world" where
  "get_race_and_horse_data ev start_year end_year limit w =
     query_with_cache ev (race_horse_query limit)
       (race_horse_cache_name start_year end_year limit) False
       (Some (year_params start_year end_year)) w"

definition text_lines :: "string list \<Rightarrow> string" where
  "text_lines ls = concat (map (\<lambda>l. l @ newline) ls)"

definition horse_prev_select :: "string list" where
  "horse_prev_select =
  [''    SELECT '',
   ''        s.kaisai_nen || s.kaisai_tsukihi AS race_date,'',
   ''        s.keibajo_code,'',
   ''        s.race_bango,'',
   ''        r.kyori,'',
   ''        r.track_code,'',
   ''        CASE '',
   ''            WHEN SUBSTRING(r.track_code, 1, 1) = '1' THEN r.babajotai_code_shiba '',
   ''            ELSE r.babajotai_code_dirt '',
   ''        END as baba_jotai,'',
   ''        s.kishu_code,'',
   ''        s.chokyoshi_code,'',
   ''        s.bataiju,'',
   ''        s.zogen_fugo,'',
   ''        s.zogen_sa,'',
   ''        CAST(s.kakutei_chakujun AS INTEGER) AS chakujun,'',
   ''        CAST(s.soha_time AS INTEGER) AS time,'',
   ''        CAST(s.kohan_3f AS INTEGER) AS last_3f,'',
   ''        CAST(s.tansho_ninkijun AS INTEGER) AS popularity,'',
   ''        CAST(s.tansho_odds AS NUMERIC) / 10.0 AS odds'',
   ''    FROM jvd_se s'',
   ''    JOIN jvd_ra r ON s.kaisai_nen = r.kaisai_nen'',
   ''                  AND s.kaisai_tsukihi = r.kaisai_tsukihi'',
   ''                  AND s.keibajo_code = r.keibajo_code'',
   ''                  AND s.race_bango = r.race_bango'',
   ''    WHERE s.ketto_toroku_bango = :horse_id'',
   ''      AND s.kakutei_chakujun ~ '^[0-9]+$'  -- '' @ [CHR 0xE6, CHR 0x95, CHR 0xB0, CHR 0xE5, CHR 0xAD, CHR 0x97, CHR 0xE3, CHR 0x81, CHR 0xAE, CHR 0xE3, CHR 0x81, CHR 0xBF, CHR 0xE3, CHR 0x81, CHR 0xAE, CHR 0xE7, CHR 0x9D, CHR 0x80, CHR 0xE9, CHR 0xA0, CHR 0x86],
   ''      AND s.kakutei_chakujun NOT IN ('00', '99')  -- '' @ [CHR 0xE9, CHR 0x99, CHR 0xA4, CHR 0xE5, CHR 0xA4, CHR 0x96, CHR 0xE3, CHR 0x83, CHR 0xBB, CHR 0xE5, CHR 0x8F, CHR 0x96, CHR 0xE6, CHR 0xB6, CHR 0x88, CHR 0xE3, CHR 0x82, CHR 0x92, CHR 0xE9, CHR 0x99, CHR 0xA4, CHR 0xE3, CHR 0x81, CHR 0x8F]]"

definition horse_prev_order :: "string list" where
  "horse_prev_order =
  [''    ORDER BY s.kaisai_nen, s.kaisai_tsukihi'']"

definition date_condition :: "pyval \<Rightarrow> string" where
  "date_condition race_date =
     (if truthy race_date
      then ''AND (s.kaisai_nen < :year OR (s.kaisai_nen = :year AND s.kaisai_tsukihi <= :date))''
      else [])"

definition horse_prev_query :: "pyval \<Rightarrow> string" where
  "horse_prev_query race_date =
     template_lines horse_prev_select @ ''    '' @ date_condition race_date @ newline
       @ text_lines horse_prev_order @ ''    ''"

text \<open>\<^verbatim>\<open>race_date[:4]\<close> and \<^verbatim>\<open>race_date[4:]\<close>: only a string can be sliced.\<close>

definition horse_prev_params :: "pyval \<Rightarrow> pyval \<Rightarrow> error + params" where
  "horse_prev_params horse_id race_date =
     (if truthy race_date
      then (case race_date of
              PyStr d \<Rightarrow> Inr [(''horse_id'', horse_id), (''year'', PyStr (take 4 d)),
                               (''date'', PyStr (drop 4 d))]
            | _ \<Rightarrow> Inl TypeError)
      else Inr [(''horse_id'', horse_id)])"

definition horse_prev_cache_key :: "pyval \<Rightarrow> pyval \<Rightarrow> string" where
  "horse_prev_cache_key horse_id race_date =
     ''horse_prev_'' @ py_str horse_id
       @ (if truthy race_date then ''_'' @ py_str race_date else [])"

definition get_horse_previous_races ::
  "'tbl env \<Rightarrow> pyval \<Rightarrow> pyval \<Rightarrow> 'tbl world \<Rightarrow> (error + 'tbl) \<times> 'tbl world" where
  "get_horse_previous_races ev horse_id race_date w =
     (case horse_prev_params horse_id race_date of
        Inl e \<Rightarrow> (Inl e, w)
      | Inr ps \<Rightarrow>
          query_with_cache ev (horse_prev_query race_date)
            (horse_prev_cache_key horse_id race_date) False (Some ps) w)"

definition jockey_course_select :: "string list" where
  "jockey_course_select =
  [''    WITH jockey_courses AS ('',
   ''        SELECT '',
   ''            s.kishu_code,'',
   ''            r.keibajo_code,'',
   ''            SUBSTRING(r.track_code, 1, 1) AS track_type,'',
   ''            CASE '',
   ''                WHEN CAST(r.kyori AS INTEGER) <= 1400 THEN '' @ [CHR 0x27, CHR 0xE7, CHR 0x9F, CHR 0xAD, CHR 0xE8, CHR 0xB7, CHR 0x9D, CHR 0xE9, CHR 0x9B, CHR 0xA2, CHR 0x27],
   ''                WHEN CAST(r.kyori AS INTEGER) <= 2000 THEN '' @ [CHR 0x27, CHR 0xE4, CHR 0xB8, CHR 0xAD, CHR 0xE8, CHR 0xB7, CHR 0x9D, CHR 0xE9, CHR 0x9B, CHR 0xA2, CHR 0x27],
   ''                ELSE '' @ [CHR 0x27, CHR 0xE9, CHR 0x95, CHR 0xB7, CHR 0xE8, CHR 0xB7, CHR 0x9D, CHR 0xE9, CHR 0x9B, CHR 0xA2, CHR 0x27],
   ''            END AS distance_category,'',
   ''            COUNT(*) AS total_races,'',
   ''            COUNT(*) FILTER (WHERE CAST(s.kakutei_chakujun AS INTEGER) = 1) AS wins,'',
   ''            COUNT(*) FILTER (WHERE CAST(s.kakutei_chakujun AS INTEGER) <= 3) AS top3,'',
   ''            ROUND(COUNT(*) FILTER (WHERE CAST(s.kakutei_chakujun AS INTEGER) = 1)::NUMERIC / COUNT(*) * 100, 2) AS win_rate,'',
   ''            ROUND(COUNT(*) FILTER (WHERE CAST(s.kakutei_chakujun AS INTEGER) <= 3)::NUMERIC / COUNT(*) * 100, 2) AS top3_rate,'',
   ''            ROUND(AVG(CAST(s.tansho_odds AS NUMERIC) / 10.0) FILTER (WHERE CAST(s.kakutei_chakujun AS INTEGER) = 1), 2) AS avg_win_odds,'',
   ''            ROUND(SUM(CASE WHEN CAST(s.kakutei_chakujun AS INTEGER) = 1 THEN CAST(s.tansho_odds AS NUMERIC) / 10.0 ELSE 0 END) / COUNT(*) * 100, 2) AS roi'',
   ''        FROM jvd_se s'',
   ''        JOIN jvd_ra r ON s.kaisai_nen = r.kaisai_nen'',
   ''                      AND s.kaisai_tsukihi = r.kaisai_tsukihi'',
   ''                      AND s.keibajo_code = r.keibajo_code'',
   ''                      AND s.race_bango = r.race_bango'',
   ''        WHERE s.kishu_code = :jockey_code'',
   ''          AND CAST(s.kaisai_nen AS INTEGER) >= EXTRACT(YEAR FROM CURRENT_DATE) - :years_range'',
   ''          AND s.kakutei_chakujun ~ '^[0-9]+$'' @ [CHR 0x27],
   ''          AND s.kakutei_chakujun NOT IN ('00', '99')'',
   ''        GROUP BY s.kishu_code, r.keibajo_code, track_type, distance_category'',
   ''        HAVING COUNT(*) >= :min_races'',
   ''    )'',
   ''    SELECT '',
   ''        kishu_code,'',
   ''        keibajo_code,'',
   ''        track_type,'',
   ''        distance_category,'',
   ''        total_races,'',
   ''        wins,'',
   ''        top3,'',
   ''        win_rate,'',
   ''        top3_rate,'',
   ''        avg_win_odds,'',
   ''        roi,'',
   ''        CASE '',
   ''            WHEN roi >= 200 THEN 'S'' @ [CHR 0x27],
   ''            WHEN roi >= 100 THEN 'A'' @ [CHR 0x27],
   ''            WHEN roi >= 70 THEN 'B'' @ [CHR 0x27],
   ''            WHEN roi >= 50 THEN 'C'' @ [CHR 0x27],
   ''            ELSE 'D'' @ [CHR 0x27],
   ''        END AS roi_rank'',
   ''    FROM jockey_courses'',
   ''    ORDER BY roi DESC'']"

definition jockey_course_query :: string where
  "jockey_course_query = template_lines jockey_course_select @ ''    ''"

definition get_jockey_course_stats ::
  "'tbl env \<Rightarrow> pyval \<Rightarrow> pyval \<Rightarrow> pyval \<Rightarrow> 'tbl world \<Rightarrow> (error + 'tbl) \<times> 'tbl world" where
  "get_jockey_course_stats ev jockey_code years_range min_races w =
     execute_query ev jockey_course_query
       (Some [(''jockey_code'', jockey_code), (''years_range'', years_range),
              (''min_races'', min_races)]) w"

definition sire_stats_select :: "string list" where
  "sire_stats_select =
  [''    WITH sire_condition_stats AS ('',
   ''        SELECT '',
   ''            u.ketto_joho_01a AS sire_id,'',
   ''            TRIM(u.ketto_joho_01b) AS sire_name,'',
   ''            SUBSTRING(r.track_code, 1, 1) AS track_type,'',
   ''            CASE '',
   ''                WHEN SUBSTRING(r.track_code, 1, 1) = '1' THEN r.babajotai_code_shiba'',
   ''                ELSE r.babajotai_code_dirt'',
   ''            END AS track_condition,'',
   ''            COUNT(DISTINCT s.ketto_toroku_bango) AS horses_count,'',
   ''            COUNT(*) AS total_races,'',
   ''            COUNT(*) FILTER (WHERE CAST(s.kakutei_chakujun AS INTEGER) = 1) AS wins,'',
   ''            ROUND(COUNT(*) FILTER (WHERE CAST(s.kakutei_chakujun AS INTEGER) = 1)::NUMERIC / COUNT(*) * 100, 2) AS win_rate,'',
   ''            ROUND(AVG(CAST(s.tansho_ninkijun AS INTEGER)), 2) AS avg_popularity,'',
   ''            ROUND(AVG(CAST(s.tansho_odds AS NUMERIC) / 10.0) FILTER (WHERE CAST(s.kakutei_chakujun AS INTEGER) = 1), 2) AS avg_win_odds,'',
   ''            ROUND(SUM(CASE WHEN CAST(s.kakutei_chakujun AS INTEGER) = 1 THEN CAST(s.tansho_odds AS NUMERIC) / 10.0 ELSE 0 END) / COUNT(*) * 100, 2) AS roi'',
   ''        FROM jvd_se s'',
   ''        JOIN jvd_ra r ON s.kaisai_nen = r.kaisai_nen'',
   ''                      AND s.kaisai_tsukihi = r.kaisai_tsukihi'',
   ''                      AND s.keibajo_code = r.keibajo_code'',
   ''                      AND s.race_bango = r.race_bango'',
   ''        JOIN jvd_um u ON s.ketto_toroku_bango = u.ketto_toroku_bango'',
   ''        WHERE s.kakutei_chakujun ~ '^[0-9]+$'' @ [CHR 0x27],
   ''          AND s.kakutei_chakujun NOT IN ('00', '99')'']"

definition sire_stats_rest :: "string list" where
  "sire_stats_rest =
  [''        GROUP BY u.ketto_joho_01a, sire_name, track_type, track_condition'',
   ''        HAVING COUNT(DISTINCT s.ketto_toroku_bango) >= :min_horses'',
   ''           AND COUNT(*) >= :min_races'',
   ''    )'',
   ''    SELECT '',
   ''        sire_id,'',
   ''        sire_name,'',
   ''        track_type,'',
   ''        CASE '',
   ''            WHEN track_condition = '1' THEN '' @ [CHR 0x27, CHR 0xE8, CHR 0x89, CHR 0xAF, CHR 0x27],
   ''            WHEN track_condition = '2' THEN '' @ [CHR 0x27, CHR 0xE7, CHR 0xA8, CHR 0x8D, CHR 0xE9, CHR 0x87, CHR 0x8D, CHR 0x27],
   ''            WHEN track_condition = '3' THEN '' @ [CHR 0x27, CHR 0xE9, CHR 0x87, CHR 0x8D, CHR 0x27],
   ''            WHEN track_condition = '4' THEN '' @ [CHR 0x27, CHR 0xE4, CHR 0xB8, CHR 0x8D, CHR 0xE8, CHR 0x89, CHR 0xAF, CHR 0x27],
   ''            ELSE track_condition'',
   ''        END AS track_condition,'',
   ''        horses_count,'',
   ''        total_races,'',
   ''        wins,'',
   ''        win_rate,'',
   ''        avg_popularity,'',
   ''        avg_win_odds,'',
   ''        roi,'',
   ''        CASE '',
   ''            WHEN roi >= 200 THEN 'S'' @ [CHR 0x27],
   ''            WHEN roi >= 100 THEN 'A'' @ [CHR 0x27],
   ''            WHEN roi >= 70 THEN 'B'' @ [CHR 0x27],
   ''            WHEN roi >= 50 THEN 'C'' @ [CHR 0x27],
   ''            ELSE 'D'' @ [CHR 0x27],
   ''        END AS roi_rank'',
   ''    FROM sire_condition_stats'',
   ''    ORDER BY roi DESC'']"

definition sire_condition :: "pyval \<Rightarrow> string" where
  "sire_condition sire_id = (if truthy sire_id then ''AND u.ketto_joho_01a = :sire_id'' else [])"

definition sire_stats_query :: "pyval \<Rightarrow> string" where
  "sire_stats_query sire_id =
     template_lines sire_stats_select @ ''          '' @ sire_condition sire_id @ newline
       @ text_lines sire_stats_rest @ ''    ''"

definition sire_stats_params :: "pyval \<Rightarrow> pyval \<Rightarrow> pyval \<Rightarrow> params" where
  "sire_stats_params sire_id min_horses min_races =
     [(''min_horses'', min_horses), (''min_races'', min_races)]
       @ (if truthy sire_id then [(''sire_id'', sire_id)] else [])"

definition sire_stats_cache_key :: "pyval \<Rightarrow> string" where
  "sire_stats_cache_key sire_id =
     ''sire_track_condition'' @ (if truthy sire_id then ''_'' @ py_str sire_id else [])"

definition get_sire_track_condition_stats ::
  "'tbl env \<Rightarrow> pyval \<Rightarrow> pyval \<Rightarrow> pyval \<Rightarrow> 'tbl world \<Rightarrow> (error + 'tbl) \<times> 'tbl world" where
  "get_sire_track_condition_stats ev sire_id min_horses min_races w =
     query_with_cache ev (sire_stats_query sire_id) (sire_stats_cache_key sire_id) False
       (Some (sire_stats_params sire_id min_horses min_races)) w"

section \<open>\<^verbatim>\<open>base_features.py\<close>: identifiers\<close>

text \<open>A row of a data frame: column name to value; \<^verbatim>\<open>row[k]\<close> raises on a missing column.\<close>

type_synonym row = "string \<rightharpoonup> pyval"

definition getitem :: "row \<Rightarrow> string \<Rightarrow> error + pyval" where
  "getitem r k = (case r k of None \<Rightarrow> Inl (KeyError k) | Some v \<Rightarrow> Inr v)"

definition create_race_id :: "row \<Rightarrow> error + string" where
  "create_race_id r =
     bind_err (getitem r ''kaisai_nen'') (\<lambda>nen.
     bind_err (getitem r ''kaisai_tsukihi'') (\<lambda>tsukihi.
     bind_err (getitem r ''keibajo_code'') (\<lambda>code.
     bind_err (getitem r ''race_bango'') (\<lambda>bango.
       Inr (py_str nen @ py_str tsukihi @ py_str code @ py_str bango)))))"

definition create_horse_race_id :: "row \<Rightarrow> error + string" where
  "create_horse_race_id r =
     bind_err (create_race_id r) (\<lambda>race_id.
     bind_err (getitem r ''ketto_toroku_bango'') (\<lambda>horse.
       Inr (race_id @ ''_'' @ py_str horse)))"

section \<open>What the statements compute\<close>

text \<open>
  The statements of \<^verbatim>\<open>extraction.py\<close> are fixed texts run by the database engine. This
  section gives their meaning on the rows of the join, clause by clause, for the clauses
  the derived columns depend on. Conventions:
  \<^item> a nullable text column is a \<open>string option\<close>, \<open>None\<close> being NULL;
  \<^item> \<^verbatim>\<open>NUMERIC\<close> values are rationals and their arithmetic is exact (the engine's choice
    of a quotient's scale, at least 16 significant digits, is not modelled);
  \<^item> a \<^verbatim>\<open>WHERE\<close> clause keeps a row when every conjunct is true; the conjuncts are
    evaluated in the order written and evaluation of a row stops at the first conjunct
    that is false or NULL;
  \<^item> the order of the result (\<^verbatim>\<open>ORDER BY\<close>) is not modelled: groups appear in the order
    of their first row.
\<close>

subsection \<open>Text, casts and rounding\<close>

definition is_digit :: "char \<Rightarrow> bool" where
  "is_digit c = (c \<in> set ''0123456789'')"

definition digit_val :: "char \<Rightarrow> nat" where
  "digit_val c = of_char c - 48"

definition nat_of_digits :: "string \<Rightarrow> nat" where
  "nat_of_digits s = foldl (\<lambda>n c. 10 * n + digit_val c) 0 s"

definition is_space :: "char \<Rightarrow> bool" where
  "is_space c = (c \<in> set [CHR 0x20, CHR 0x09, CHR 0x0A, CHR 0x0B, CHR 0x0C, CHR 0x0D])"

definition strip :: "string \<Rightarrow> string" where
  "strip s = rev (dropWhile is_space (rev (dropWhile is_space s)))"

definition split_sign :: "string \<Rightarrow> bool \<times> string" where
  \<comment> \<open>an optional sign; the flag says negative\<close>
  "split_sign s =
     (case s of
        c # r \<Rightarrow> if c = CHR ''-'' then (True, r) else if c = CHR ''+'' then (False, r) else (False, s)
      | [] \<Rightarrow> (False, s))"

text \<open>
  Decimal text as both \<^verbatim>\<open>CAST(... AS NUMERIC)\<close> and Python's \<^verbatim>\<open>float\<close> read it: blanks
  around, an optional sign, digits with an optional fraction. Both also accept an
  exponent and the names of infinity and not-a-number; such text is outside this
  function, which answers \<open>None\<close> for it.
\<close>

definition parse_decimal :: "string \<Rightarrow> rat option" where
  "parse_decimal s =
     (let (neg, body) = split_sign (strip s);
          ip = takeWhile (\<lambda>c. c \<noteq> CHR ''.'') body;
          fp = drop 1 (dropWhile (\<lambda>c. c \<noteq> CHR ''.'') body)
      in if list_all is_digit ip \<and> list_all is_digit fp \<and> (ip \<noteq> [] \<or> fp \<noteq> [])
         then let v = of_nat (nat_of_digits ip) + of_nat (nat_of_digits fp) / 10 ^ length fp
              in Some (if neg then - v else v)
         else None)"

definition cast_numeric :: "string option \<Rightarrow> error + rat option" where
  "cast_numeric x =
     (case x of
        None \<Rightarrow> Inr None
      | Some s \<Rightarrow> (case parse_decimal s of
                    None \<Rightarrow> Inl InvalidTextRepresentation
                  | Some v \<Rightarrow> Inr (Some v)))"

text \<open>\<^verbatim>\<open>CAST(... AS INTEGER)\<close>: blanks around, an optional sign, digits; 32 bits.\<close>

definition cast_integer :: "string option \<Rightarrow> error + int option" where
  "cast_integer x =
     (case x of
        None \<Rightarrow> Inr None
      | Some s \<Rightarrow>
          (let (neg, body) = split_sign (strip s) in
           if body \<noteq> [] \<and> list_all is_digit body
           then let v = (if neg then - int (nat_of_digits body) else int (nat_of_digits body))
                in if - 2147483648 \<le> v \<and> v \<le> 2147483647 then Inr (Some v)
                   else Inl NumericValueOutOfRange
           else Inl InvalidTextRepresentation))"

definition sql_round :: "nat \<Rightarrow> rat \<Rightarrow> rat" where
  \<comment> \<open>\<^verbatim>\<open>ROUND(x, d)\<close> on \<^verbatim>\<open>NUMERIC\<close>: ties away from zero\<close>
  "sql_round d x =
     (if 0 \<le> x then of_int \<lfloor>x * 10 ^ d + 1 / 2\<rfloor> / 10 ^ d
      else - (of_int \<lfloor>- x * 10 ^ d + 1 / 2\<rfloor> / 10 ^ d))"

definition sql_sum :: "rat option list \<Rightarrow> rat option" where
  \<comment> \<open>\<^verbatim>\<open>SUM\<close> skips NULL and is NULL when nothing is left\<close>
  "sql_sum xs = (case List.map_filter id xs of [] \<Rightarrow> None | v # vs \<Rightarrow> Some (sum_list (v # vs)))"

definition sql_avg :: "rat option list \<Rightarrow> rat option" where
  "sql_avg xs =
     (case List.map_filter id xs of
        [] \<Rightarrow> None
      | v # vs \<Rightarrow> Some (sum_list (v # vs) / of_nat (length (v # vs))))"

definition sql_eq :: "string option \<Rightarrow> string option \<Rightarrow> bool" where
  \<comment> \<open>whether \<^verbatim>\<open>a = b\<close> is true (not false, not NULL)\<close>
  "sql_eq a b = (case (a, b) of (Some x, Some y) \<Rightarrow> x = y | _ \<Rightarrow> False)"

fun text_less :: "string \<Rightarrow> string \<Rightarrow> bool" where
  "text_less [] [] = False"
| "text_less [] (y # ys) = True"
| "text_less (x # xs) [] = False"
| "text_less (x # xs) (y # ys) =
     ((of_char x :: nat) < of_char y \<or> (x = y \<and> text_less xs ys))"

definition sql_less :: "string option \<Rightarrow> string option \<Rightarrow> bool" where
  \<comment> \<open>whether \<^verbatim>\<open>a < b\<close> is true, text compared byte by byte\<close>
  "sql_less a b = (case (a, b) of (Some x, Some y) \<Rightarrow> text_less x y | _ \<Rightarrow> False)"

definition sql_le :: "string option \<Rightarrow> string option \<Rightarrow> bool" where
  "sql_le a b = (sql_less a b \<or> sql_eq a b)"

fun filter_err :: "('a \<Rightarrow> error + bool) \<Rightarrow> 'a list \<Rightarrow> error + 'a list" where
  "filter_err p [] = Inr []"
| "filter_err p (x # xs) =
     bind_err (p x) (\<lambda>keep.
     bind_err (filter_err p xs) (\<lambda>rest. Inr (if keep then x # rest else rest)))"

fun map_err :: "('a \<Rightarrow> error + 'b) \<Rightarrow> 'a list \<Rightarrow> error + 'b list" where
  "map_err f [] = Inr []"
| "map_err f (x # xs) =
     bind_err (f x) (\<lambda>y. bind_err (map_err f xs) (\<lambda>ys. Inr (y # ys)))"

text \<open>\<^verbatim>\<open>GROUP BY\<close>: the rows that share a key, in order, one group per key.\<close>

function group_by :: "('k \<times> 'a) list \<Rightarrow> ('k \<times> 'a list) list" where
  "group_by [] = []"
| "group_by ((k, x) # rest) =
     (k, x # map snd (filter (\<lambda>p. fst p = k) rest)) # group_by (filter (\<lambda>p. fst p \<noteq> k) rest)"
  by pat_completeness auto
termination
  by (relation "measure length") (auto simp: less_Suc_eq_le)

subsection \<open>The joined row\<close>

text \<open>
  One row of \<^verbatim>\<open>jvd_se s\<close> joined to its race \<^verbatim>\<open>jvd_ra r\<close> and, in the sire statement, to
  its horse \<^verbatim>\<open>jvd_um u\<close>: the columns the statements read, as stored (text).
\<close>

record entry =
  kaisai_nen :: "string option"
  kaisai_tsukihi :: "string option"
  keibajo_code :: "string option"
  race_bango :: "string option"
  kyori :: "string option"
  track_code :: "string option"
  babajotai_code_shiba :: "string option"
  babajotai_code_dirt :: "string option"
  ketto_toroku_bango :: "string option"
  kishu_code :: "string option"
  chokyoshi_code :: "string option"
  bataiju :: "string option"
  zogen_fugo :: "string option"
  zogen_sa :: "string option"
  kakutei_chakujun :: "string option"
  soha_time :: "string option"
  kohan_3f :: "string option"
  tansho_odds :: "string option"
  tansho_ninkijun :: "string option"
  ketto_joho_01a :: "string option"
  ketto_joho_01b :: "string option"

definition track_type :: "entry \<Rightarrow> string option" where
  \<comment> \<open>\<^verbatim>\<open>SUBSTRING(r.track_code, 1, 1)\<close>\<close>
  "track_type e = map_option (take 1) (track_code e)"

definition baba_jotai :: "entry \<Rightarrow> string option" where
  "baba_jotai e =
     (if sql_eq (track_type e) (Some ''1'') then babajotai_code_shiba e
      else babajotai_code_dirt e)"

subsection \<open>The finishing-position conditions\<close>

definition chakujun_numeric :: "entry \<Rightarrow> bool" where
  \<comment> \<open>\<^verbatim>\<open>s.kakutei_chakujun ~ '^[0-9]+$'\<close>\<close>
  "chakujun_numeric e =
     (case kakutei_chakujun e of None \<Rightarrow> False | Some s \<Rightarrow> s \<noteq> [] \<and> list_all is_digit s)"

definition chakujun_not_excluded :: "entry \<Rightarrow> bool" where
  \<comment> \<open>\<^verbatim>\<open>s.kakutei_chakujun NOT IN ('00', '99')\<close>\<close>
  "chakujun_not_excluded e =
     (case kakutei_chakujun e of None \<Rightarrow> False | Some s \<Rightarrow> s \<noteq> ''00'' \<and> s \<noteq> ''99'')"

definition chakujun_ok :: "entry \<Rightarrow> bool" where
  "chakujun_ok e = (chakujun_numeric e \<and> chakujun_not_excluded e)"

text \<open>
  Two readings of a finishing position, for stating what the conditions leave out: the
  text of a positive integer, and the positions that fail one of the two conditions
  (NULL, empty, holding a character that is no digit, or one of the codes 00 and 99).
\<close>

definition positive_integer_text :: "string \<Rightarrow> bool" where
  "positive_integer_text s = (s \<noteq> [] \<and> list_all is_digit s \<and> 0 < nat_of_digits s)"

definition excluded_position :: "string option \<Rightarrow> bool" where
  "excluded_position x =
     (case x of
        None \<Rightarrow> True
      | Some s \<Rightarrow> s = [] \<or> \<not> list_all is_digit s \<or> s = ''00'' \<or> s = ''99'')"

subsection \<open>Derived columns of a group\<close>

text \<open>
  What one kept row gives to the aggregates: its finishing position
  \<^verbatim>\<open>CAST(s.kakutei_chakujun AS INTEGER)\<close> and, read only where that position is 1
  (\<^verbatim>\<open>CASE WHEN\<close>, \<^verbatim>\<open>FILTER\<close>), the odds \<^verbatim>\<open>CAST(s.tansho_odds AS NUMERIC) / 10.0\<close>.
\<close>

type_synonym contribution = "int option \<times> rat option"

definition win_odds :: "int option \<Rightarrow> entry \<Rightarrow> error + rat option" where
  "win_odds k e =
     (if k = Some 1
      then bind_err (cast_numeric (tansho_odds e)) (\<lambda>v. Inr (map_option (\<lambda>x. x / 10) v))
      else Inr None)"

definition contribution :: "entry \<Rightarrow> error + contribution" where
  "contribution e =
     bind_err (cast_integer (kakutei_chakujun e)) (\<lambda>k.
     bind_err (win_odds k e) (\<lambda>v. Inr (k, v)))"

definition is_win :: "contribution \<Rightarrow> bool" where
  "is_win c = (fst c = Some 1)"

definition is_top3 :: "contribution \<Rightarrow> bool" where
  "is_top3 c = (case fst c of None \<Rightarrow> False | Some k \<Rightarrow> k \<le> 3)"

definition payout :: "contribution \<Rightarrow> rat option" where
  \<comment> \<open>\<^verbatim>\<open>CASE WHEN ... = 1 THEN ... / 10.0 ELSE 0 END\<close>\<close>
  "payout c = (if is_win c then snd c else Some 0)"

definition count_where :: "('a \<Rightarrow> bool) \<Rightarrow> 'a list \<Rightarrow> nat" where
  \<comment> \<open>\<^verbatim>\<open>COUNT(*) FILTER (WHERE ...)\<close>\<close>
  "count_where p xs = length (filter p xs)"

definition rate :: "nat \<Rightarrow> nat \<Rightarrow> rat" where
  \<comment> \<open>\<^verbatim>\<open>ROUND(k::NUMERIC / COUNT(*) * 100, 2)\<close>\<close>
  "rate k n = sql_round 2 (of_nat k / of_nat n * 100)"

definition roi_of :: "contribution list \<Rightarrow> rat option" where
  \<comment> \<open>\<^verbatim>\<open>ROUND(SUM(CASE ...) / COUNT(*) * 100, 2)\<close>\<close>
  "roi_of cs =
     map_option (\<lambda>s. sql_round 2 (s / of_nat (length cs) * 100)) (sql_sum (map payout cs))"

definition avg_win_odds_of :: "contribution list \<Rightarrow> rat option" where
  \<comment> \<open>\<^verbatim>\<open>ROUND(AVG(... / 10.0) FILTER (WHERE ... = 1), 2)\<close>\<close>
  "avg_win_odds_of cs = map_option (sql_round 2) (sql_avg (map snd (filter is_win cs)))"

datatype grade = Rank_S | Rank_A | Rank_B | Rank_C | Rank_D

definition sql_ge :: "rat option \<Rightarrow> rat \<Rightarrow> bool" where
  \<comment> \<open>whether \<^verbatim>\<open>a >= b\<close> is true; it is NULL, so not true, for a NULL \<^verbatim>\<open>a\<close>\<close>
  "sql_ge a b = (case a of None \<Rightarrow> False | Some x \<Rightarrow> b \<le> x)"

definition roi_rank :: "rat option \<Rightarrow> grade" where
  "roi_rank roi =
     (if sql_ge roi 200 then Rank_S
      else if sql_ge roi 100 then Rank_A
      else if sql_ge roi 70 then Rank_B
      else if sql_ge roi 50 then Rank_C
      else Rank_D)"

subsection \<open>\<^verbatim>\<open>get_horse_previous_races\<close>\<close>

record prev_race =
  race_date :: "string option"
  passed :: "string option list"
  chakujun :: "int option"
  time :: "int option"
  last_3f :: "int option"
  popularity :: "int option"
  odds :: "rat option"

definition sql_concat :: "string option \<Rightarrow> string option \<Rightarrow> string option" where
  "sql_concat a b = (case (a, b) of (Some x, Some y) \<Rightarrow> Some (x @ y) | _ \<Rightarrow> None)"

definition horse_prev_where :: "string \<Rightarrow> (string \<times> string) option \<Rightarrow> entry \<Rightarrow> bool" where
  \<comment> \<open>the second argument holds \<^verbatim>\<open>:year\<close> and \<^verbatim>\<open>:date\<close> when the date condition is spliced in\<close>
  "horse_prev_where horse_id yd e =
     (sql_eq (ketto_toroku_bango e) (Some horse_id)
      \<and> chakujun_numeric e
      \<and> chakujun_not_excluded e
      \<and> (case yd of
           None \<Rightarrow> True
         | Some (year, date) \<Rightarrow>
             sql_less (kaisai_nen e) (Some year)
             \<or> (sql_eq (kaisai_nen e) (Some year) \<and> sql_le (kaisai_tsukihi e) (Some date))))"

definition prev_race :: "entry \<Rightarrow> error + prev_race" where
  "prev_race e =
     bind_err (cast_integer (kakutei_chakujun e)) (\<lambda>c.
     bind_err (cast_integer (soha_time e)) (\<lambda>t.
     bind_err (cast_integer (kohan_3f e)) (\<lambda>l.
     bind_err (cast_integer (tansho_ninkijun e)) (\<lambda>p.
     bind_err (cast_numeric (tansho_odds e)) (\<lambda>v.
       Inr \<lparr>race_date = sql_concat (kaisai_nen e) (kaisai_tsukihi e),
            passed = [keibajo_code e, race_bango e, kyori e, track_code e, baba_jotai e,
                      kishu_code e, chokyoshi_code e, bataiju e, zogen_fugo e, zogen_sa e],
            chakujun = c, time = t, last_3f = l, popularity = p,
            odds = map_option (\<lambda>x. x / 10) v\<rparr>)))))"

definition horse_previous_races ::
  "string \<Rightarrow> (string \<times> string) option \<Rightarrow> entry list \<Rightarrow> error + prev_race list" where
  "horse_previous_races horse_id yd rows =
     map_err prev_race (filter (horse_prev_where horse_id yd) rows)"

subsection \<open>\<^verbatim>\<open>get_jockey_course_stats\<close>\<close>

datatype distance_category =
    Short_distance    \<comment> \<open>up to 1400\<close>
  | Middle_distance   \<comment> \<open>up to 2000\<close>
  | Long_distance

record aggregate =
  total_races :: nat
  wins :: nat
  win_rate :: rat
  avg_win_odds :: "rat option"
  roi :: "rat option"
  roi_rank_of :: grade

type_synonym jockey_key =
  "string option \<times> string option \<times> string option \<times> distance_category"

record jockey_course = aggregate +
  jockey_key :: jockey_key
  top3 :: nat
  top3_rate :: rat

definition jockey_where :: "string \<Rightarrow> int \<Rightarrow> int \<Rightarrow> entry \<Rightarrow> error + bool" where
  \<comment> \<open>\<open>this_year\<close> is \<^verbatim>\<open>EXTRACT(YEAR FROM CURRENT_DATE)\<close>\<close>
  "jockey_where jockey_code this_year years_range e =
     (if \<not> sql_eq (kishu_code e) (Some jockey_code) then Inr False
      else bind_err (cast_integer (kaisai_nen e)) (\<lambda>y.
        Inr ((case y of None \<Rightarrow> False | Some v \<Rightarrow> this_year - years_range \<le> v)
             \<and> chakujun_numeric e \<and> chakujun_not_excluded e)))"

definition distance_of :: "entry \<Rightarrow> error + distance_category" where
  "distance_of e =
     bind_err (cast_integer (kyori e)) (\<lambda>d.
       Inr (case d of
              None \<Rightarrow> Long_distance
            | Some v \<Rightarrow> if v \<le> 1400 then Short_distance
                        else if v \<le> 2000 then Middle_distance else Long_distance))"

definition jockey_keyed :: "entry \<Rightarrow> error + jockey_key \<times> entry" where
  "jockey_keyed e =
     bind_err (distance_of e) (\<lambda>d. Inr ((kishu_code e, keibajo_code e, track_type e, d), e))"

definition jockey_group :: "jockey_key \<times> entry list \<Rightarrow> error + jockey_course" where
  \<comment> \<open>a group holds at least one row; \<^verbatim>\<open>/ COUNT(*)\<close> would raise on none\<close>
  "jockey_group kg =
     (if snd kg = [] then Inl DivisionByZero
      else bind_err (map_err contribution (snd kg)) (\<lambda>cs.
        Inr \<lparr>total_races = length cs,
             wins = count_where is_win cs,
             win_rate = rate (count_where is_win cs) (length cs),
             avg_win_odds = avg_win_odds_of cs,
             roi = roi_of cs,
             roi_rank_of = roi_rank (roi_of cs),
             jockey_key = fst kg,
             top3 = count_where is_top3 cs,
             top3_rate = rate (count_where is_top3 cs) (length cs)\<rparr>))"

definition jockey_course_stats ::
  "string \<Rightarrow> int \<Rightarrow> int \<Rightarrow> int \<Rightarrow> entry list \<Rightarrow> error + jockey_course list" where
  "jockey_course_stats jockey_code this_year years_range min_races rows =
     bind_err (filter_err (jockey_where jockey_code this_year years_range) rows) (\<lambda>kept.
     bind_err (map_err jockey_keyed kept) (\<lambda>keyed.
     bind_err (map_err jockey_group (group_by keyed)) (\<lambda>gs.
       Inr (filter (\<lambda>g. min_races \<le> int (total_races g)) gs))))"

subsection \<open>\<^verbatim>\<open>get_sire_track_condition_stats\<close>\<close>

type_synonym sire_key =
  "string option \<times> string option \<times> string option \<times> string option"

record sire_condition = aggregate +
  sire_key :: sire_key
  track_condition :: "string option"
  horses_count :: nat
  avg_popularity :: "rat option"

definition sql_trim :: "string \<Rightarrow> string" where
  "sql_trim s = rev (dropWhile (\<lambda>c. c = CHR '' '') (rev (dropWhile (\<lambda>c. c = CHR '' '') s)))"

definition sire_where :: "string option \<Rightarrow> entry \<Rightarrow> bool" where
  \<comment> \<open>the argument holds \<^verbatim>\<open>:sire_id\<close> when the sire condition is spliced in\<close>
  "sire_where sire e =
     (chakujun_numeric e
      \<and> chakujun_not_excluded e
      \<and> (case sire of None \<Rightarrow> True | Some i \<Rightarrow> sql_eq (ketto_joho_01a e) (Some i)))"

definition sire_keyed :: "entry \<Rightarrow> sire_key \<times> entry" where
  "sire_keyed e =
     ((ketto_joho_01a e, map_option sql_trim (ketto_joho_01b e), track_type e, baba_jotai e), e)"

definition sire_contribution :: "entry \<Rightarrow> error + contribution \<times> int option" where
  "sire_contribution e =
     bind_err (cast_integer (kakutei_chakujun e)) (\<lambda>k.
     bind_err (cast_integer (tansho_ninkijun e)) (\<lambda>p.
     bind_err (win_odds k e) (\<lambda>v. Inr ((k, v), p))))"

definition condition_label :: "string option \<Rightarrow> string option" where
  \<comment> \<open>the outer \<^verbatim>\<open>CASE\<close>: the Japanese names of the four going codes, in UTF-8\<close>
  "condition_label c =
     (if sql_eq c (Some ''1'') then Some [CHR 0xE8, CHR 0x89, CHR 0xAF]
      else if sql_eq c (Some ''2'') then Some [CHR 0xE7, CHR 0xA8, CHR 0x8D, CHR 0xE9, CHR 0x87, CHR 0x8D]
      else if sql_eq c (Some ''3'') then Some [CHR 0xE9, CHR 0x87, CHR 0x8D]
      else if sql_eq c (Some ''4'') then Some [CHR 0xE4, CHR 0xB8, CHR 0x8D, CHR 0xE8, CHR 0x89, CHR 0xAF]
      else c)"

definition sire_group :: "sire_key \<times> entry list \<Rightarrow> error + sire_condition" where
  "sire_group kg =
     (if snd kg = [] then Inl DivisionByZero
      else bind_err (map_err sire_contribution (snd kg)) (\<lambda>ps.
        let cs = map fst ps in
        Inr \<lparr>total_races = length cs,
             wins = count_where is_win cs,
             win_rate = rate (count_where is_win cs) (length cs),
             avg_win_odds = avg_win_odds_of cs,
             roi = roi_of cs,
             roi_rank_of = roi_rank (roi_of cs),
             sire_key = fst kg,
             track_condition = condition_label (snd (snd (snd (fst kg)))),
             horses_count = length (remdups (List.map_filter ketto_toroku_bango (snd kg))),
             avg_popularity =
               map_option (sql_round 2) (sql_avg (map (\<lambda>p. map_option of_int (snd p)) ps))\<rparr>))"

definition sire_track_condition_stats ::
  "string option \<Rightarrow> int \<Rightarrow> int \<Rightarrow> entry list \<Rightarrow> error + sire_condition list" where
  "sire_track_condition_stats sire min_horses min_races rows =
     bind_err (map_err sire_group (group_by (map sire_keyed (filter (sire_where sire) rows))))
       (\<lambda>gs. Inr (filter (\<lambda>g. min_horses \<le> int (horses_count g)
                               \<and> min_races \<le> int (total_races g)) gs))"

section \<open>\<^verbatim>\<open>base_features.py\<close>: group rates and normalisation\<close>

text \<open>
  Python floats are taken with exact arithmetic: a finite float is a real number and no
  operation rounds. \<^verbatim>\<open>float(v)\<close> reads the decimal texts of \<open>parse_decimal\<close>.
\<close>

definition py_float :: "pyval \<Rightarrow> error + real" where
  "py_float v =
     (case v of
        PyNone \<Rightarrow> Inl TypeError
      | PyBool b \<Rightarrow> Inr (if b then 1 else 0)
      | PyInt i \<Rightarrow> Inr (of_int i)
      | PyStr s \<Rightarrow> (case parse_decimal s of None \<Rightarrow> Inl ValueError | Some q \<Rightarrow> Inr (of_rat q)))"

definition calculate_win_rate :: "row list \<Rightarrow> error + real" where
  "calculate_win_rate grp =
     (if length grp = 0 then Inr 0
      else bind_err (map_err (\<lambda>r. getitem r ''kakutei_chakujun'') grp) (\<lambda>col.
        Inr (real (count_where (\<lambda>v. v = PyStr ''01'') col) / real (length grp) * 100)))"

text \<open>The loop of \<^verbatim>\<open>calculate_roi\<close> over the rows, \<open>total_return\<close> being its accumulator.\<close>

fun roi_loop :: "row list \<Rightarrow> real \<Rightarrow> error + real" where
  "roi_loop [] total_return = Inr total_return"
| "roi_loop (r # rs) total_return =
     (case getitem r ''kakutei_chakujun'' of
        Inl e \<Rightarrow> Inl e
      | Inr c \<Rightarrow>
          if c = PyStr ''01''
          then (case bind_err (getitem r ''tansho_odds'') py_float of
                  Inl e \<Rightarrow> Inl e
                | Inr x \<Rightarrow> roi_loop rs (total_return + x / 10))
          else roi_loop rs total_return)"

definition calculate_roi :: "row list \<Rightarrow> error + real" where
  "calculate_roi grp =
     (if length grp = 0 then Inr 0
      else bind_err (roi_loop grp 0) (\<lambda>total_return.
        Inr (total_return / real (length grp) * 100)))"

subsection \<open>Rows of a data frame read from the database\<close>

text \<open>
  \<open>get_race_and_horse_data\<close> hands the finishing position and the odds on as the
  database stores them: text, or \<^verbatim>\<open>None\<close> for NULL. \<open>frame_row\<close> is the row of the data
  frame for a joined row, with the two columns the group functions read.
\<close>

definition py_text :: "string option \<Rightarrow> pyval" where
  "py_text x = (case x of None \<Rightarrow> PyNone | Some s \<Rightarrow> PyStr s)"

definition frame_row :: "entry \<Rightarrow> row" where
  "frame_row e =
     [''kakutei_chakujun'' \<mapsto> py_text (kakutei_chakujun e),
      ''tansho_odds'' \<mapsto> py_text (tansho_odds e)]"

text \<open>
  The rows on which the statements and the group functions read the same races and the
  same winners: the position is a two-digit code that the conditions keep, so it is 01
  exactly when it casts to 1, and the odds of a winner are decimal text.
\<close>

definition comparable_row :: "entry \<Rightarrow> bool" where
  "comparable_row e =
     (case kakutei_chakujun e of
        None \<Rightarrow> False
      | Some s \<Rightarrow>
          length s = 2 \<and> list_all is_digit s \<and> s \<noteq> ''00'' \<and> s \<noteq> ''99''
          \<and> (s = ''01'' \<longrightarrow>
               (case tansho_odds e of None \<Rightarrow> False | Some t \<Rightarrow> parse_decimal t \<noteq> None)))"

subsection \<open>Float columns\<close>

text \<open>
  The entries of a numeric column: finite numbers, not-a-number and the two infinities,
  with the arithmetic of IEEE 754 on them (the sign of zero is not kept: a zero divisor
  counts as positive).
\<close>

datatype fnum = Fin real | NaN | PosInf | NegInf

fun fneg :: "fnum \<Rightarrow> fnum" where
  "fneg (Fin x) = Fin (- x)"
| "fneg NaN = NaN"
| "fneg PosInf = NegInf"
| "fneg NegInf = PosInf"

fun fadd :: "fnum \<Rightarrow> fnum \<Rightarrow> fnum" where
  "fadd (Fin a) (Fin b) = Fin (a + b)"
| "fadd NaN y = NaN"
| "fadd x NaN = NaN"
| "fadd PosInf NegInf = NaN"
| "fadd NegInf PosInf = NaN"
| "fadd PosInf y = PosInf"
| "fadd NegInf y = NegInf"
| "fadd (Fin a) y = y"

definition fsub :: "fnum \<Rightarrow> fnum \<Rightarrow> fnum" where
  "fsub x y = fadd x (fneg y)"

fun fsign :: "fnum \<Rightarrow> int" where
  "fsign (Fin x) = (if x < 0 then - 1 else if x = 0 then 0 else 1)"
| "fsign NaN = 0"
| "fsign PosInf = 1"
| "fsign NegInf = - 1"

definition signed_inf :: "int \<Rightarrow> fnum" where
  "signed_inf s = (if s = 0 then NaN else if 0 < s then PosInf else NegInf)"

fun fmul :: "fnum \<Rightarrow> fnum \<Rightarrow> fnum" where
  "fmul (Fin a) (Fin b) = Fin (a * b)"
| "fmul NaN y = NaN"
| "fmul x NaN = NaN"
| "fmul x y = signed_inf (fsign x * fsign y)"

fun fdiv :: "fnum \<Rightarrow> fnum \<Rightarrow> fnum" where
  "fdiv (Fin a) (Fin b) = (if b \<noteq> 0 then Fin (a / b) else signed_inf (fsign (Fin a)))"
| "fdiv NaN y = NaN"
| "fdiv x NaN = NaN"
| "fdiv (Fin a) y = Fin 0"
| "fdiv x (Fin b) = signed_inf (fsign x * (if b < 0 then - 1 else 1))"
| "fdiv x y = NaN"

fun fsqrt :: "fnum \<Rightarrow> fnum" where
  "fsqrt (Fin a) = (if 0 \<le> a then Fin (sqrt a) else NaN)"
| "fsqrt PosInf = PosInf"
| "fsqrt x = NaN"

fun fless :: "fnum \<Rightarrow> fnum \<Rightarrow> bool" where
  "fless (Fin a) (Fin b) = (a < b)"
| "fless NaN y = False"
| "fless x NaN = False"
| "fless NegInf y = (y \<noteq> NegInf)"
| "fless x PosInf = (x \<noteq> PosInf)"
| "fless x y = False"

definition fsum :: "fnum list \<Rightarrow> fnum" where
  "fsum xs = foldl fadd (Fin 0) xs"

text \<open>The reductions of a pandas series skip not-a-number entries.\<close>

definition valid :: "fnum list \<Rightarrow> fnum list" where
  "valid col = filter (\<lambda>v. v \<noteq> NaN) col"

definition series_min :: "fnum list \<Rightarrow> fnum" where
  "series_min col =
     (case valid col of [] \<Rightarrow> NaN | v # vs \<Rightarrow> foldl (\<lambda>m x. if fless x m then x else m) v vs)"

definition series_max :: "fnum list \<Rightarrow> fnum" where
  "series_max col =
     (case valid col of [] \<Rightarrow> NaN | v # vs \<Rightarrow> foldl (\<lambda>m x. if fless m x then x else m) v vs)"

definition series_mean :: "fnum list \<Rightarrow> fnum" where
  "series_mean col =
     (case valid col of [] \<Rightarrow> NaN | v # vs \<Rightarrow> fdiv (fsum (v # vs)) (Fin (real (length (v # vs)))))"

definition series_std :: "fnum list \<Rightarrow> fnum" where
  \<comment> \<open>the sample standard deviation (one degree of freedom taken off)\<close>
  "series_std col =
     (let vs = valid col; n = length vs in
      if n \<le> 1 then NaN
      else fsqrt (fdiv (fsum (map (\<lambda>v. fmul (fsub v (series_mean col)) (fsub v (series_mean col))) vs))
                       (Fin (real (n - 1)))))"

type_synonym frame = "string \<rightharpoonup> fnum list"

definition column_of :: "frame \<Rightarrow> string \<Rightarrow> error + fnum list" where
  "column_of df column = (case df column of None \<Rightarrow> Inl (KeyError column) | Some col \<Rightarrow> Inr col)"

definition normalize_numeric :: "frame \<Rightarrow> string \<Rightarrow> string \<Rightarrow> error + frame" where
  "normalize_numeric df column method =
     (if method = ''min_max''
      then bind_err (column_of df column) (\<lambda>col.
        Inr (df(column @ ''_norm'' \<mapsto>
               map (\<lambda>v. fdiv (fsub v (series_min col)) (fsub (series_max col) (series_min col))) col)))
      else if method = ''standard''
      then bind_err (column_of df column) (\<lambda>col.
        Inr (df(column @ ''_norm'' \<mapsto>
               map (\<lambda>v. fdiv (fsub v (series_mean col)) (series_std col)) col)))
      else Inr df)"

section \<open>Example data\<close>

text \<open>
  Two engines for concrete calls, one answering every statement with its own text and one
  with the parameters bound to it, and a world with no file and no statement run.
\<close>

definition echo_env :: "string env" where
  "echo_env = \<lparr>module_dir = ''/app/src/data'', read_sql_query = (\<lambda>query ps. Inr query)\<rparr>"

definition params_env :: "params option env" where
  "params_env = \<lparr>module_dir = ''/app/src/data'', read_sql_query = (\<lambda>query ps. Inr ps)\<rparr>"

definition empty_world :: "'tbl world" where
  "empty_world = \<lparr>files = Map.empty, executed = []\<rparr>"

definition refusing_env :: "string env" where
  "refusing_env =
     \<lparr>module_dir = ''/app/src/data'',
      read_sql_query = (\<lambda>query ps. Inl (DatabaseError ''syntax error''))\<rparr>"

text \<open>A joined row of one race, with the given horse, finishing position and odds.\<close>

definition sample_entry :: "string \<Rightarrow> string \<Rightarrow> string \<Rightarrow> entry" where
  "sample_entry horse position odds_text =
     \<lparr>kaisai_nen = Some ''2021'', kaisai_tsukihi = Some ''0101'', keibajo_code = Some ''05'',
      race_bango = Some ''12'', kyori = Some ''1600'', track_code = Some ''11'',
      babajotai_code_shiba = Some ''1'', babajotai_code_dirt = Some ''0'',
      ketto_toroku_bango = Some horse, kishu_code = Some ''01234'',
      chokyoshi_code = Some ''00456'', bataiju = Some ''480'', zogen_fugo = Some ''+'',
      zogen_sa = Some ''002'', kakutei_chakujun = Some position, soha_time = Some ''1345'',
      kohan_3f = Some ''345'', tansho_odds = Some odds_text, tansho_ninkijun = Some ''03'',
      ketto_joho_01a = Some ''0000123456'', ketto_joho_01b = Some ''Deep Impact  ''\<rparr>"

text \<open>
  Groups of one jockey and one sire on one course: three runners placed first, second
  and seventh; ten runners with two winners at odds texts 30 and 50; thirty-two runners
  with one winner at odds text 15.
\<close>

definition three_entries :: "entry list" where
  "three_entries =
     [sample_entry ''h1'' ''01'' ''0030'', sample_entry ''h2'' ''02'' ''0050'',
      sample_entry ''h3'' ''07'' ''0120'']"

definition sample_jockey_key :: jockey_key where
  "sample_jockey_key = (Some ''01234'', Some ''05'', Some ''1'', Middle_distance)"

definition sample_sire_key :: sire_key where
  "sample_sire_key = (Some ''0000123456'', Some ''Deep Impact'', Some ''1'', Some ''1'')"

definition ten_rows :: "entry list" where
  "ten_rows =
     sample_entry ''h1'' ''01'' ''30'' # sample_entry ''h2'' ''01'' ''50''
       # replicate 8 (sample_entry ''h3'' ''05'' ''120'')"

definition thirty_two_rows :: "entry list" where
  "thirty_two_rows =
     sample_entry ''h1'' ''01'' ''15'' # replicate 31 (sample_entry ''h3'' ''05'' ''120'')"

section \<open>Properties\<close>

subsection \<open>Auxiliary facts\<close>

lemma bind_err_simps [simp]:
  "bind_err (Inl e) f = Inl e"
  "bind_err (Inr x) f = f x"
  by (simp_all add: bind_err_def)

lemma execute_query_result:
  "fst (execute_query ev q ps w) = read_sql_query ev q (if ps = Some [] then None else ps)"
  "snd (execute_query ev q ps w) = w\<lparr>executed := executed w @ [(q, ps)]\<rparr>"
  by (auto simp: execute_query_def Let_def split: option.splits list.splits)

lemma query_with_cache_hit:
  assumes "\<not> force" and "files w (cache_path ev nm) = Some (Pickle t)"
  shows "query_with_cache ev q nm force ps w = (Inr t, w)"
  using assms by (simp add: query_with_cache_def read_pickle_def)

lemma query_with_cache_miss:
  assumes "force \<or> files w (cache_path ev nm) = None"
    and "read_sql_query ev q (if ps = Some [] then None else ps) = Inr t"
  shows "query_with_cache ev q nm force ps w =
           (Inr t, w\<lparr>executed := executed w @ [(q, ps)],
                     files := (files w)(cache_path ev nm \<mapsto> Pickle t)\<rparr>)"
proof -
  have "execute_query ev q ps w = (Inr t, w\<lparr>executed := executed w @ [(q, ps)]\<rparr>)"
    using assms(2) execute_query_result [of ev q ps w] by (simp add: prod_eq_iff)
  with assms(1) show ?thesis
    by (auto simp: query_with_cache_def)
qed

lemma query_with_cache_fail:
  assumes "force \<or> files w (cache_path ev nm) = None"
    and "read_sql_query ev q (if ps = Some [] then None else ps) = Inl e"
  shows "query_with_cache ev q nm force ps w = (Inl e, w\<lparr>executed := executed w @ [(q, ps)]\<rparr>)"
proof -
  have "execute_query ev q ps w = (Inl e, w\<lparr>executed := executed w @ [(q, ps)]\<rparr>)"
    using assms(2) execute_query_result [of ev q ps w] by (simp add: prod_eq_iff)
  with assms(1) show ?thesis
    by (auto simp: query_with_cache_def)
qed

lemma query_with_cache_first_miss:
  assumes "files w (cache_path ev nm) = None"
  shows "fst (query_with_cache ev q nm False ps w)
           = read_sql_query ev q (if ps = Some [] then None else ps)"
  using assms execute_query_result(1) [of ev q ps w]
  by (cases "execute_query ev q ps w") (auto simp: query_with_cache_def split: sum.splits)

subsection \<open>The cache store\<close>

text \<open>
  Claim C2. With \<open>force_refresh\<close> false and a table stored under the name,
  \<open>query_with_cache\<close> returns that table and leaves the world as it is: no statement is
  run. With no file under the name, or \<open>force_refresh\<close> true, it runs the statement once
  (one entry is added to the log) and, when the engine answers with a table, stores that
  table under the name and returns it. A call without \<open>force_refresh\<close> that returned a
  table, repeated in the world it left, returns the same table and leaves that world
  unchanged; the first call ran at most one statement, the second none.
\<close>

theorem query_with_cache_contract:
  "(\<not> force \<and> files w (cache_path ev nm) = Some (Pickle t) \<longrightarrow>
      query_with_cache ev q nm force ps w = (Inr t, w))
   \<and> ((force \<or> files w (cache_path ev nm) = None)
        \<and> read_sql_query ev q (if ps = Some [] then None else ps) = Inr t \<longrightarrow>
      query_with_cache ev q nm force ps w =
        (Inr t, w\<lparr>executed := executed w @ [(q, ps)],
                  files := (files w)(cache_path ev nm \<mapsto> Pickle t)\<rparr>))
   \<and> (query_with_cache ev q nm False ps w = (Inr t, w') \<longrightarrow>
        query_with_cache ev q nm False ps w' = (Inr t, w')
        \<and> length (executed w') \<le> Suc (length (executed w)))"
proof (intro conjI impI)
  assume "\<not> force \<and> files w (cache_path ev nm) = Some (Pickle t)"
  then show "query_with_cache ev q nm force ps w = (Inr t, w)"
    by (simp add: query_with_cache_hit)
next
  assume "(force \<or> files w (cache_path ev nm) = None)
        \<and> read_sql_query ev q (if ps = Some [] then None else ps) = Inr t"
  then show "query_with_cache ev q nm force ps w =
        (Inr t, w\<lparr>executed := executed w @ [(q, ps)],
                  files := (files w)(cache_path ev nm \<mapsto> Pickle t)\<rparr>)"
    by (simp add: query_with_cache_miss)
next
  assume a: "query_with_cache ev q nm False ps w = (Inr t, w')"
  show "query_with_cache ev q nm False ps w' = (Inr t, w')"
  proof (cases "files w (cache_path ev nm)")
    case None
    obtain r w1 where e: "execute_query ev q ps w = (r, w1)"
      by (cases "execute_query ev q ps w")
    with a None have "r = Inr t"
      and "w' = w1\<lparr>files := (files w1)(cache_path ev nm \<mapsto> Pickle t)\<rparr>"
      by (auto simp: query_with_cache_def split: sum.splits)
    then show ?thesis
      by (simp add: query_with_cache_hit)
  next
    case (Some f)
    with a have "w' = w" and "f = Pickle t"
      by (auto simp: query_with_cache_def read_pickle_def split: stored.splits)
    with Some show ?thesis
      by (simp add: query_with_cache_hit)
  qed
next
  assume a: "query_with_cache ev q nm False ps w = (Inr t, w')"
  show "length (executed w') \<le> Suc (length (executed w))"
  proof (cases "files w (cache_path ev nm)")
    case None
    obtain r w1 where e: "execute_query ev q ps w = (r, w1)"
      by (cases "execute_query ev q ps w")
    with a None have "w' = w1\<lparr>files := (files w1)(cache_path ev nm \<mapsto> Pickle t)\<rparr>"
      by (auto simp: query_with_cache_def split: sum.splits)
    moreover from e have "w1 = w\<lparr>executed := executed w @ [(q, ps)]\<rparr>"
      using execute_query_result(2) [of ev q ps w] by simp
    ultimately show ?thesis by simp
  next
    case (Some f)
    with a have "w' = w"
      by (auto simp: query_with_cache_def)
    then show ?thesis by simp
  qed
qed

text \<open>
  The contract at a concrete call: the first call on an empty cache runs the statement
  and stores its table, the second returns the stored table and runs nothing.
\<close>

theorem query_with_cache_twice:
  "query_with_cache echo_env ''SELECT 1'' ''one'' False None empty_world
     = (Inr ''SELECT 1'',
        \<lparr>files = [cache_path echo_env ''one'' \<mapsto> Pickle ''SELECT 1''],
         executed = [(''SELECT 1'', None)]\<rparr>)
   \<and> query_with_cache echo_env ''SELECT 1'' ''one'' False None
        \<lparr>files = [cache_path echo_env ''one'' \<mapsto> Pickle ''SELECT 1''],
         executed = [(''SELECT 1'', None)]\<rparr>
     = (Inr ''SELECT 1'',
        \<lparr>files = [cache_path echo_env ''one'' \<mapsto> Pickle ''SELECT 1''],
         executed = [(''SELECT 1'', None)]\<rparr>)"
  using query_with_cache_contract [where force = False and ev = echo_env and nm = "''one''"
      and q = "''SELECT 1''" and ps = None and t = "''SELECT 1''" and w = empty_world
      and w' = "\<lparr>files = [cache_path echo_env ''one'' \<mapsto> Pickle ''SELECT 1''],
         executed = [(''SELECT 1'', None)]\<rparr>"]
    query_with_cache_contract [where force = False and ev = echo_env and nm = "''one''"
      and q = "''SELECT 1''" and ps = None and t = "''SELECT 1''"
      and w = "\<lparr>files = [cache_path echo_env ''one'' \<mapsto> Pickle ''SELECT 1''],
         executed = [(''SELECT 1'', None)]\<rparr>"]
  by (simp add: empty_world_def echo_env_def)

subsection \<open>The optional limit\<close>

text \<open>
  Claim C10. A limit that is not truthy (\<^verbatim>\<open>None\<close>, and also \<^verbatim>\<open>0\<close>) leaves the
  \<^verbatim>\<open>LIMIT\<close> clause out: the statement of \<open>get_race_base_info\<close> and of
  \<open>get_race_and_horse_data\<close> is then the statement built for \<^verbatim>\<open>None\<close>, and a call with
  limit 0 that finds no cached table returns what the engine answers to that unlimited
  statement. Only a truthy limit gives a clause, \<^verbatim>\<open>LIMIT\<close> followed by the limit's text.
\<close>

theorem falsy_limit_unlimited:
  "(\<not> truthy limit \<longrightarrow>
      limit_clause limit = [] \<and> race_base_query limit = race_base_query PyNone
      \<and> race_horse_query limit = race_horse_query PyNone)
   \<and> (truthy limit \<longrightarrow> limit_clause limit = ''LIMIT '' @ py_str limit)
   \<and> \<not> truthy PyNone \<and> \<not> truthy (PyInt 0)
   \<and> (files w (cache_path ev (race_base_cache_name s e (PyInt 0))) = None \<longrightarrow>
        fst (get_race_base_info ev s e (PyInt 0) w)
          = read_sql_query ev (race_base_query PyNone) (Some (year_params s e)))
   \<and> (files w (cache_path ev (race_horse_cache_name s e (PyInt 0))) = None \<longrightarrow>
        fst (get_race_and_horse_data ev s e (PyInt 0) w)
          = read_sql_query ev (race_horse_query PyNone) (Some (year_params s e)))"
  by (simp add: limit_clause_def race_base_query_def race_horse_query_def
      get_race_base_info_def get_race_and_horse_data_def query_with_cache_first_miss
      year_params_def)

theorem falsy_limit_examples:
  "race_base_query (PyInt 0) = race_base_query PyNone
   \<and> race_base_query (PyStr []) = race_base_query PyNone
   \<and> limit_clause (PyInt 5) = ''LIMIT 5''
   \<and> fst (get_race_base_info echo_env (PyStr ''2010'') (PyStr ''2023'') (PyInt 0) empty_world)
       = Inr (race_base_query PyNone)"
  using falsy_limit_unlimited [of "PyInt 0" empty_world echo_env "PyStr ''2010''" "PyStr ''2023''"]
    falsy_limit_unlimited [of "PyStr []" empty_world echo_env "PyStr ''2010''" "PyStr ''2023''"]
    falsy_limit_unlimited [of "PyInt 5" empty_world echo_env "PyStr ''2010''" "PyStr ''2023''"]
  by (simp add: empty_world_def echo_env_def str_int_def str_nat.simps digit_char_def)

subsection \<open>The grade of a return on investment\<close>

text \<open>
  Claim C3. \<open>roi_rank\<close> is a function of the roi with five values, so every roi has
  exactly one grade: S exactly from 200 up, A exactly in [100, 200), B exactly in
  [70, 100), C exactly in [50, 70), D exactly below 50; a NULL roi is graded D.
  In particular 200.00 is S, 100.00 is A and 99.99 is B.
\<close>

theorem roi_rank_partition:
  "(roi_rank (Some r) = Rank_S \<longleftrightarrow> 200 \<le> r)
   \<and> (roi_rank (Some r) = Rank_A \<longleftrightarrow> 100 \<le> r \<and> r < 200)
   \<and> (roi_rank (Some r) = Rank_B \<longleftrightarrow> 70 \<le> r \<and> r < 100)
   \<and> (roi_rank (Some r) = Rank_C \<longleftrightarrow> 50 \<le> r \<and> r < 70)
   \<and> (roi_rank (Some r) = Rank_D \<longleftrightarrow> r < 50)
   \<and> roi_rank None = Rank_D"
  by (auto simp: roi_rank_def sql_ge_def)

theorem roi_rank_boundaries:
  "roi_rank (Some 200) = Rank_S \<and> roi_rank (Some 100) = Rank_A
   \<and> roi_rank (Some (9999 / 100)) = Rank_B"
  using roi_rank_partition [of 200] roi_rank_partition [of 100]
    roi_rank_partition [of "9999 / 100"]
  by simp

subsection \<open>Race and entrant identifiers\<close>

text \<open>
  For a row that holds the four columns, \<open>create_race_id\<close> is the texts of year,
  month-day, course code and race number put together with nothing between them, and
  \<open>create_horse_race_id\<close> adds an underscore and the text of the horse's registration
  number (a row without that column raises \<^verbatim>\<open>KeyError\<close>). Both are functions of the row.
\<close>

lemma create_ids_concatenate:
  assumes "r ''kaisai_nen'' = Some y" and "r ''kaisai_tsukihi'' = Some md"
    and "r ''keibajo_code'' = Some c" and "r ''race_bango'' = Some n"
  shows "create_race_id r = Inr (py_str y @ py_str md @ py_str c @ py_str n)
       \<and> (\<forall>h. r ''ketto_toroku_bango'' = Some h \<longrightarrow>
            create_horse_race_id r
              = Inr (py_str y @ py_str md @ py_str c @ py_str n @ ''_'' @ py_str h))
       \<and> (r ''ketto_toroku_bango'' = None \<longrightarrow>
            create_horse_race_id r = Inl (KeyError ''ketto_toroku_bango''))"
  using assms by (simp add: create_race_id_def create_horse_race_id_def getitem_def)

text \<open>
  Claim C9. The docstring of \<open>create_race_id\<close> gives the identifier 20210101050112 for
  race 12 at course 05 on 1 January 2021, and the claim expects it, with
  20210101050112_1234567890 for horse 1234567890. On the row with year 2021, month-day
  0101, course 05 and race 12 the function returns the twelve characters 202101010512
  instead, and \<open>create_horse_race_id\<close> returns 202101010512_1234567890: neither is the
  documented identifier.
\<close>

theorem create_ids_docstring_example:
  "create_race_id [''kaisai_nen'' \<mapsto> PyStr ''2021'', ''kaisai_tsukihi'' \<mapsto> PyStr ''0101'',
       ''keibajo_code'' \<mapsto> PyStr ''05'', ''race_bango'' \<mapsto> PyStr ''12'',
       ''ketto_toroku_bango'' \<mapsto> PyStr ''1234567890'']
     = Inr ''202101010512''
   \<and> create_horse_race_id [''kaisai_nen'' \<mapsto> PyStr ''2021'', ''kaisai_tsukihi'' \<mapsto> PyStr ''0101'',
       ''keibajo_code'' \<mapsto> PyStr ''05'', ''race_bango'' \<mapsto> PyStr ''12'',
       ''ketto_toroku_bango'' \<mapsto> PyStr ''1234567890'']
     = Inr ''202101010512_1234567890''
   \<and> create_race_id [''kaisai_nen'' \<mapsto> PyStr ''2021'', ''kaisai_tsukihi'' \<mapsto> PyStr ''0101'',
       ''keibajo_code'' \<mapsto> PyStr ''05'', ''race_bango'' \<mapsto> PyStr ''12'',
       ''ketto_toroku_bango'' \<mapsto> PyStr ''1234567890'']
     \<noteq> Inr ''20210101050112''
   \<and> create_horse_race_id [''kaisai_nen'' \<mapsto> PyStr ''2021'', ''kaisai_tsukihi'' \<mapsto> PyStr ''0101'',
       ''keibajo_code'' \<mapsto> PyStr ''05'', ''race_bango'' \<mapsto> PyStr ''12'',
       ''ketto_toroku_bango'' \<mapsto> PyStr ''1234567890'']
     \<noteq> Inr ''20210101050112_1234567890''"
  using create_ids_concatenate [of "[''kaisai_nen'' \<mapsto> PyStr ''2021'',
       ''kaisai_tsukihi'' \<mapsto> PyStr ''0101'',
       ''keibajo_code'' \<mapsto> PyStr ''05'', ''race_bango'' \<mapsto> PyStr ''12'',
       ''ketto_toroku_bango'' \<mapsto> PyStr ''1234567890'']"
      "PyStr ''2021''" "PyStr ''0101''" "PyStr ''05''" "PyStr ''12''"]
  by simp

subsection \<open>Splicing the limit\<close>




subsection \<open>Cache names\<close>

lemma sire_stats_one_row:
  "sire_track_condition_stats None 1 2 [sample_entry ''h1'' ''01'' ''0030''] = Inr []"
  "sire_track_condition_stats None 1 1 [sample_entry ''h1'' ''01'' ''0030''] \<noteq> Inr []"
  by code_simp+


subsection \<open>Rates of a group\<close>

lemma sql_round_nonneg: "0 \<le> x \<Longrightarrow> 0 \<le> sql_round d x"
  by (simp add: sql_round_def)

lemma sql_round_mono:
  assumes "0 \<le> x" and "x \<le> y"
  shows "sql_round d x \<le> sql_round d y"
proof -
  have "x * 10 ^ d + 1 / 2 \<le> y * 10 ^ d + 1 / 2"
    using assms by (simp add: mult_right_mono)
  then have "\<lfloor>x * 10 ^ d + 1 / 2\<rfloor> \<le> \<lfloor>y * 10 ^ d + 1 / 2\<rfloor>"
    by (rule floor_mono)
  then have "(of_int \<lfloor>x * 10 ^ d + 1 / 2\<rfloor> :: rat) / 10 ^ d \<le> of_int \<lfloor>y * 10 ^ d + 1 / 2\<rfloor> / 10 ^ d"
    by (simp add: divide_right_mono)
  with assms show ?thesis
    by (simp add: sql_round_def)
qed

lemma sql_round_hundred: "sql_round 2 100 = 100"
proof -
  have "\<lfloor>(20001::rat) / 2\<rfloor> = 10000"
    by (rule floor_unique) simp_all
  then show ?thesis
    by (simp add: sql_round_def)
qed

lemma rate_bounds:
  assumes "k \<le> m" and "m \<le> n" and "0 < n"
  shows "0 \<le> rate k n" and "rate k n \<le> rate m n" and "rate m n \<le> 100"
proof -
  have a: "(0::rat) \<le> of_nat k / of_nat n * 100" by simp
  have b: "(of_nat k :: rat) / of_nat n * 100 \<le> of_nat m / of_nat n * 100"
    using assms by (simp add: divide_right_mono)
  have "(of_nat m :: rat) / of_nat n \<le> 1"
    using assms by (simp add: divide_le_eq_1)
  then have "(of_nat m :: rat) / of_nat n * 100 \<le> 1 * 100"
    by (rule mult_right_mono) simp
  then have c: "(of_nat m :: rat) / of_nat n * 100 \<le> 100"
    by simp
  show "0 \<le> rate k n" using a by (simp add: rate_def sql_round_nonneg)
  show "rate k n \<le> rate m n" using a b by (simp add: rate_def sql_round_mono)
  have "rate m n \<le> sql_round 2 100"
    unfolding rate_def using c by (intro sql_round_mono) simp_all
  then show "rate m n \<le> 100" by (simp add: sql_round_hundred)
qed

lemma count_where_le: "count_where p xs \<le> length xs"
  by (simp add: count_where_def)

lemma win_top3_counts: "count_where is_win cs \<le> count_where is_top3 cs"
proof -
  have "is_win c \<Longrightarrow> is_top3 c" for c
    by (simp add: is_win_def is_top3_def)
  then show ?thesis
    unfolding count_where_def by (induction cs) auto
qed

lemma map_err_length: "map_err f xs = Inr ys \<Longrightarrow> length ys = length xs"
  by (induction xs arbitrary: ys) (auto simp: bind_err_def split: sum.splits)

lemma map_err_member:
  "map_err f xs = Inr ys \<Longrightarrow> y \<in> set ys \<Longrightarrow> \<exists>x \<in> set xs. f x = Inr y"
  by (induction xs arbitrary: ys) (auto simp: bind_err_def split: sum.splits)

lemma jockey_group_rates:
  assumes "jockey_group kg = Inr g"
  shows "0 < total_races g \<and> 0 \<le> win_rate g \<and> win_rate g \<le> 100
         \<and> win_rate g \<le> top3_rate g \<and> top3_rate g \<le> 100"
proof -
  from assms obtain cs where cs: "map_err contribution (snd kg) = Inr cs" and ne: "snd kg \<noteq> []"
    and g: "total_races g = length cs" "win_rate g = rate (count_where is_win cs) (length cs)"
      "top3_rate g = rate (count_where is_top3 cs) (length cs)"
    by (auto simp: jockey_group_def bind_err_def split: if_splits sum.splits)
  from cs ne have pos: "0 < length cs"
    using map_err_length by fastforce
  show ?thesis
    using rate_bounds [of "count_where is_win cs" "count_where is_top3 cs" "length cs"]
      rate_bounds(3) [of "count_where is_win cs" "count_where is_win cs" "length cs"]
      win_top3_counts [of cs] count_where_le [of is_win cs] count_where_le [of is_top3 cs] pos
    by (simp add: g)
qed

lemma sire_group_rates:
  assumes "sire_group kg = Inr g"
  shows "0 < total_races g \<and> 0 \<le> win_rate g \<and> win_rate g \<le> 100"
proof -
  from assms obtain ps where ps: "map_err sire_contribution (snd kg) = Inr ps" and ne: "snd kg \<noteq> []"
    and g: "total_races g = length ps" "win_rate g = rate (count_where is_win (map fst ps)) (length (map fst ps))"
    by (auto simp: sire_group_def bind_err_def Let_def split: if_splits sum.splits)
  from ps ne have pos: "0 < length (map fst ps)"
    using map_err_length by fastforce
  show ?thesis
    using rate_bounds [of "count_where is_win (map fst ps)" "count_where is_win (map fst ps)"
        "length (map fst ps)"]
      count_where_le [of is_win "map fst ps"] pos
    by (simp add: g)
qed


lemma three_entries_stats:
  "jockey_course_stats ''01234'' 2024 5 1 three_entries
     = Inr [\<lparr>total_races = 3, wins = 1, win_rate = 3333 / 100, avg_win_odds = Some 3,
             roi = Some 100, roi_rank_of = Rank_A, jockey_key = sample_jockey_key,
             top3 = 2, top3_rate = 6667 / 100\<rparr>]"
  "sire_track_condition_stats None 1 1 three_entries
     = Inr [\<lparr>total_races = 3, wins = 1, win_rate = 3333 / 100, avg_win_odds = Some 3,
             roi = Some 100, roi_rank_of = Rank_A, sire_key = sample_sire_key,
             track_condition = Some [CHR 0xE8, CHR 0x89, CHR 0xAF],
             horses_count = 3, avg_popularity = Some 3\<rparr>]"
  by code_simp+


subsection \<open>Rows left out by the finishing position\<close>

lemma bind_err_Inr [simp]: "bind_err m Inr = m"
  by (cases m) simp_all

lemma filter_err_append:
  "filter_err p (xs @ ys) =
     bind_err (filter_err p xs) (\<lambda>a. bind_err (filter_err p ys) (\<lambda>b. Inr (a @ b)))"
proof (induction xs)
  case Nil
  show ?case by simp
next
  case (Cons x xs)
  show ?case
    by (cases "p x"; cases "filter_err p xs"; cases "filter_err p ys") (simp_all add: Cons)
qed

lemma filter_err_drop:
  assumes "p r = Inr False"
  shows "filter_err p (xs @ r # ys) = filter_err p (xs @ ys)"
  using assms by (simp add: filter_err_append)

lemma excluded_not_ok: "excluded_position (kakutei_chakujun r) \<Longrightarrow> \<not> chakujun_ok r"
  by (auto simp: excluded_position_def chakujun_ok_def chakujun_numeric_def
      chakujun_not_excluded_def split: option.splits)

lemma jockey_where_excluded:
  assumes "\<not> chakujun_ok r"
    and "\<not> sql_eq (kishu_code r) (Some jc) \<or> cast_integer (kaisai_nen r) = Inr v"
  shows "jockey_where jc y yr r = Inr False"
  using assms by (auto simp: jockey_where_def chakujun_ok_def)

lemma zero_position_stats:
  "jockey_course_stats ''01234'' 2024 5 1 [sample_entry ''h1'' ''0'' ''0030'']
     = Inr [\<lparr>total_races = 1, wins = 0, win_rate = 0, avg_win_odds = None, roi = Some 0,
             roi_rank_of = Rank_D, jockey_key = sample_jockey_key, top3 = 1, top3_rate = 100\<rparr>]"
  "sire_track_condition_stats None 1 1 [sample_entry ''h1'' ''0'' ''0030'']
     = Inr [\<lparr>total_races = 1, wins = 0, win_rate = 0, avg_win_odds = None, roi = Some 0,
             roi_rank_of = Rank_D, sire_key = sample_sire_key,
             track_condition = Some [CHR 0xE8, CHR 0x89, CHR 0xAF],
             horses_count = 1, avg_popularity = Some 3\<rparr>]"
  "jockey_course_stats ''01234'' 2024 5 1 [] = Inr []"
  "sire_track_condition_stats None 1 1 [] = Inr []"
  "horse_previous_races ''h1'' None [sample_entry ''h1'' ''0'' ''0030''] \<noteq> Inr []"
  "horse_previous_races ''h1'' None [] = Inr []"
  "\<not> positive_integer_text ''0''"
  by code_simp+



lemma year_cast: "cast_integer (Some ''2021'') = Inr (Some 2021)"
  by code_simp

lemma excluded_samples:
  "excluded_position (Some ''00'')" "excluded_position (Some ''99'')"
  "excluded_position (Some ''--'')" "excluded_position None"
  by code_simp+


text \<open>
  The proviso on the year: a row of the jockey with the excluded position 00 and a year
  that is no number makes \<open>get_jockey_course_stats\<close> raise, where the statement without
  the row returns no record.
\<close>

lemma malformed_year_raises:
  "jockey_course_stats ''01234'' 2024 5 1
       [(sample_entry ''h1'' ''00'' ''0030'')\<lparr>kaisai_nen := Some ''20X1''\<rparr>]
     = Inl InvalidTextRepresentation"
  "jockey_course_stats ''01234'' 2024 5 1 [] = Inr []"
  by code_simp+

subsection \<open>Normalisation\<close>

lemma valid_Fin [simp]: "valid (map Fin xs) = map Fin xs"
  by (induction xs) (simp_all add: valid_def)

lemma valid_Cons_Fin [simp]: "valid (Fin a # map Fin xs) = Fin a # map Fin xs"
  using valid_Fin [of "a # xs"] by simp

lemma foldl_min_Fin:
  "foldl (\<lambda>m x. if fless x m then x else m) (Fin a) (map Fin xs) = Fin (fold min xs a)"
  by (induction xs arbitrary: a) (auto simp: min_def)

lemma foldl_max_Fin:
  "foldl (\<lambda>m x. if fless m x then x else m) (Fin a) (map Fin xs) = Fin (fold max xs a)"
  by (induction xs arbitrary: a) (auto simp: max_def)

lemma series_min_Fin:
  assumes "xs \<noteq> []"
  shows "series_min (map Fin xs) = Fin (Min (set xs))"
proof -
  from assms obtain a list where xs: "xs = a # list"
    by (cases xs) auto
  have "fold min list a = Min (set (a # list))"
    by (simp only: Min.set_eq_fold)
  then show ?thesis
    by (simp add: xs series_min_def foldl_min_Fin)
qed

lemma series_max_Fin:
  assumes "xs \<noteq> []"
  shows "series_max (map Fin xs) = Fin (Max (set xs))"
proof -
  from assms obtain a list where xs: "xs = a # list"
    by (cases xs) auto
  have "fold max list a = Max (set (a # list))"
    by (simp only: Max.set_eq_fold)
  then show ?thesis
    by (simp add: xs series_max_def foldl_max_Fin)
qed

lemma foldl_fadd_Fin: "foldl fadd (Fin a) (map Fin xs) = Fin (a + sum_list xs)"
  by (induction xs arbitrary: a) (simp_all add: add.assoc)

lemma fsum_Fin: "fsum (map Fin xs) = Fin (sum_list xs)"
  by (simp add: fsum_def foldl_fadd_Fin)

lemma series_mean_Fin:
  "xs \<noteq> [] \<Longrightarrow> series_mean (map Fin xs) = Fin (sum_list xs / real (length xs))"
  by (cases xs) (simp_all add: series_mean_def foldl_fadd_Fin fsum_def)

lemma constant_list: "set xs = {c} \<Longrightarrow> xs = replicate (length xs) c"
  by (induction xs) (auto simp: subset_singleton_iff intro: replicate_eqI)

lemma min_max_values:
  assumes "xs \<noteq> []" and "x \<in> set xs"
  shows "fdiv (fsub (Fin x) (Fin (Min (set xs)))) (fsub (Fin (Max (set xs))) (Fin (Min (set xs))))
           = (if Max (set xs) = Min (set xs) then NaN
              else Fin ((x - Min (set xs)) / (Max (set xs) - Min (set xs))))"
proof (cases "Max (set xs) = Min (set xs)")
  case True
  have "Min (set xs) \<le> x" and "x \<le> Max (set xs)"
    using assms by simp_all
  with True have "x = Min (set xs)" by simp
  with True show ?thesis
    by (simp add: fsub_def signed_inf_def)
next
  case False
  then show ?thesis
    by (simp add: fsub_def)
qed

lemma standard_constant:
  assumes "set xs = {c}"
  shows "map (\<lambda>x. fdiv (fsub (Fin x) (series_mean (map Fin xs))) (series_std (map Fin xs))) xs
           = map (\<lambda>x. NaN) xs"
proof -
  from assms have ne: "xs \<noteq> []" by auto
  from assms have rep: "xs = replicate (length xs) c" by (rule constant_list)
  have "sum_list xs = real (length xs) * c"
    by (subst rep) (simp add: sum_list_replicate)
  with ne have mean: "series_mean (map Fin xs) = Fin c"
    by (simp add: series_mean_Fin)
  have zero: "map (\<lambda>v. fmul (fsub v (Fin c)) (fsub v (Fin c))) (map Fin xs) = map Fin (map (\<lambda>x. 0) xs)"
    using assms by (auto simp: fsub_def)
  have std: "series_std (map Fin xs) = NaN \<or> series_std (map Fin xs) = Fin 0"
    by (simp add: series_std_def Let_def mean zero fsum_Fin del: map_map)
  have "fdiv (fsub (Fin x) (Fin c)) (series_std (map Fin xs)) = NaN" if "x \<in> set xs" for x
    using that assms std by (auto simp: fsub_def signed_inf_def)
  then show ?thesis
    by (simp add: mean)
qed

lemma constant_column_min_max: "normalize_numeric [''x'' \<mapsto> [Fin 5, Fin 5]] ''x'' ''min_max''
     = Inr [''x'' \<mapsto> [Fin 5, Fin 5], ''x_norm'' \<mapsto> [NaN, NaN]]"
  by (simp add: normalize_numeric_def column_of_def series_min_def series_max_def valid_def
      fsub_def signed_inf_def)

lemma constant_column_standard: "normalize_numeric [''x'' \<mapsto> [Fin 5, Fin 5]] ''x'' ''standard''
     = Inr [''x'' \<mapsto> [Fin 5, Fin 5], ''x_norm'' \<mapsto> [NaN, NaN]]"
  by (simp add: normalize_numeric_def column_of_def series_mean_def series_std_def valid_def
      fsub_def signed_inf_def fsum_def Let_def)




subsection \<open>Group rates in memory and in the statements\<close>

lemma digit_facts:
  assumes "is_digit c"
  shows "\<not> is_space c" and "c \<noteq> CHR ''-''" and "c \<noteq> CHR ''+''" and "digit_val c < 10"
    and "digit_val c = 0 \<longleftrightarrow> c = CHR ''0''" and "digit_val c = 1 \<longleftrightarrow> c = CHR ''1''"
  using assms by (auto simp: is_digit_def is_space_def digit_val_def)

lemma cast_two_digits:
  assumes "is_digit a" and "is_digit b"
  shows "cast_integer (Some [a, b]) = Inr (Some (int (10 * digit_val a + digit_val b)))"
proof -
  have "strip [a, b] = [a, b]"
    using digit_facts(1) [OF assms(1)] digit_facts(1) [OF assms(2)] by (simp add: strip_def)
  moreover have "split_sign [a, b] = (False, [a, b])"
    using digit_facts(2,3) [OF assms(1)] by (simp add: split_sign_def)
  moreover have "nat_of_digits [a, b] = 10 * digit_val a + digit_val b"
    by (simp add: nat_of_digits_def)
  moreover have "10 * digit_val a + digit_val b < 100"
    using digit_facts(4) [OF assms(1)] digit_facts(4) [OF assms(2)] by simp
  ultimately show ?thesis
    using assms by (simp add: cast_integer_def)
qed

lemma two_digits_one:
  assumes "is_digit a" and "is_digit b"
  shows "10 * digit_val a + digit_val b = 1 \<longleftrightarrow> [a, b] = ''01''"
proof -
  have "10 * digit_val a + digit_val b = 1 \<longleftrightarrow> digit_val a = 0 \<and> digit_val b = 1"
    using digit_facts(4) [OF assms(2)] by presburger
  then show ?thesis
    using digit_facts(5) [OF assms(1)] digit_facts(6) [OF assms(2)] by simp
qed

lemma comparable_step:
  assumes "comparable_row e"
  shows "\<exists>c v. contribution e = Inr c \<and> payout c = Some v
           \<and> (\<forall>rs t. roi_loop (frame_row e # rs) t = roi_loop rs (t + of_rat v))
           \<and> (\<exists>p. getitem (frame_row e) ''kakutei_chakujun'' = Inr p
                 \<and> (p = PyStr ''01'' \<longleftrightarrow> is_win c))"
proof -
  from assms obtain s where s: "kakutei_chakujun e = Some s" "length s = 2" "list_all is_digit s"
    and odds: "s = ''01'' \<longrightarrow> (\<exists>t q. tansho_odds e = Some t \<and> parse_decimal t = Some q)"
    by (auto simp: comparable_row_def split: option.splits)
  from s(2) obtain a b where ab: "s = [a, b]"
    by (cases s; cases "tl s") auto
  with s(3) have d: "is_digit a" "is_digit b" by simp_all
  have cast: "cast_integer (kakutei_chakujun e) = Inr (Some (int (10 * digit_val a + digit_val b)))"
    using cast_two_digits [OF d] by (simp add: s(1) ab)
  have one: "int (10 * digit_val a + digit_val b) = 1 \<longleftrightarrow> s = ''01''"
    using two_digits_one [OF d] ab by (metis of_nat_1 of_nat_eq_iff)
  have item: "getitem (frame_row e) ''kakutei_chakujun'' = Inr (PyStr s)"
    by (simp add: getitem_def frame_row_def py_text_def s(1))
  show ?thesis
  proof (cases "s = ''01''")
    case True
    with odds obtain t q where t: "tansho_odds e = Some t" "parse_decimal t = Some q"
      by blast
    have c: "contribution e = Inr (Some 1, Some (q / 10))"
      using cast one True t by (simp add: contribution_def win_odds_def cast_numeric_def)
    have f: "bind_err (getitem (frame_row e) ''tansho_odds'') py_float = Inr (of_rat q)"
      by (simp add: getitem_def frame_row_def py_text_def t py_float_def)
    have r: "\<forall>rs t'. roi_loop (frame_row e # rs) t' = roi_loop rs (t' + of_rat (q / 10))"
      using item True f by (simp add: of_rat_divide)
    have p: "payout (Some 1, Some (q / 10)) = Some (q / 10)"
      by (simp add: payout_def is_win_def)
    have i: "\<exists>p. getitem (frame_row e) ''kakutei_chakujun'' = Inr p
                 \<and> (p = PyStr ''01'' \<longleftrightarrow> is_win (Some 1, Some (q / 10)))"
      using item True by (simp add: is_win_def)
    show ?thesis
      by (rule exI [where x = "(Some 1, Some (q / 10))"], rule exI [where x = "q / 10"])
        (intro conjI c p r i)
  next
    case False
    with one have k: "int (10 * digit_val a + digit_val b) \<noteq> 1" by simp
    have c: "contribution e = Inr (Some (int (10 * digit_val a + digit_val b)), None)"
      using cast k by (simp add: contribution_def win_odds_def)
    have r: "\<forall>rs t'. roi_loop (frame_row e # rs) t' = roi_loop rs (t' + of_rat 0)"
      using item False by simp
    have p: "payout (Some (int (10 * digit_val a + digit_val b)), None) = Some 0"
      using k by (simp add: payout_def is_win_def)
    have i: "\<exists>p. getitem (frame_row e) ''kakutei_chakujun'' = Inr p
                 \<and> (p = PyStr ''01''
                      \<longleftrightarrow> is_win (Some (int (10 * digit_val a + digit_val b)), None))"
      using item False k by (simp add: is_win_def)
    show ?thesis
      by (rule exI [where x = "(Some (int (10 * digit_val a + digit_val b)), None)"],
          rule exI [where x = 0])
        (intro conjI c p r i)
  qed
qed

lemma comparable_rows:
  assumes "list_all comparable_row rows"
  shows "\<exists>cs vs col. map_err contribution rows = Inr cs \<and> length cs = length rows
           \<and> map payout cs = map Some vs
           \<and> (\<forall>t. roi_loop (map frame_row rows) t = Inr (t + of_rat (sum_list vs)))
           \<and> map_err (\<lambda>r. getitem r ''kakutei_chakujun'') (map frame_row rows) = Inr col
           \<and> count_where (\<lambda>v. v = PyStr ''01'') col = count_where is_win cs"
  using assms
proof (induction rows)
  case Nil
  show ?case by (simp add: count_where_def)
next
  case (Cons e rows)
  then obtain cs vs col where ih: "map_err contribution rows = Inr cs" "length cs = length rows"
      "map payout cs = map Some vs"
      "\<And>t. roi_loop (map frame_row rows) t = Inr (t + of_rat (sum_list vs))"
      "map_err (\<lambda>r. getitem r ''kakutei_chakujun'') (map frame_row rows) = Inr col"
      "count_where (\<lambda>v. v = PyStr ''01'') col = count_where is_win cs"
    by auto
  from Cons.prems have "comparable_row e" by simp
  from comparable_step [OF this] obtain c v p where st: "contribution e = Inr c" "payout c = Some v"
      "\<And>rs t. roi_loop (frame_row e # rs) t = roi_loop rs (t + of_rat v)"
      "getitem (frame_row e) ''kakutei_chakujun'' = Inr p" "p = PyStr ''01'' \<longleftrightarrow> is_win c"
    by blast
  have "map_err contribution (e # rows) = Inr (c # cs)"
    by (simp add: st(1) ih(1))
  moreover have "length (c # cs) = length (e # rows)"
    by (simp add: ih(2))
  moreover have "map payout (c # cs) = map Some (v # vs)"
    by (simp add: st(2) ih(3))
  moreover have "roi_loop (map frame_row (e # rows)) t = Inr (t + of_rat (sum_list (v # vs)))" for t
    by (simp only: list.map st(3) ih(4)) (simp add: of_rat_add add.assoc)
  moreover have "map_err (\<lambda>r. getitem r ''kakutei_chakujun'') (map frame_row (e # rows)) = Inr (p # col)"
    by (simp add: st(4) ih(5))
  moreover have "count_where (\<lambda>v. v = PyStr ''01'') (p # col) = count_where is_win (c # cs)"
    using st(5) ih(6) by (simp add: count_where_def)
  ultimately show ?case by blast
qed

lemma sql_sum_Some: "vs \<noteq> [] \<Longrightarrow> sql_sum (map Some vs) = Some (sum_list vs)"
  by (cases vs) (simp_all add: sql_sum_def List.map_filter_def comp_def)

lemma thirty_two_rows_facts:
  "jockey_course_stats ''01234'' 2024 5 3 thirty_two_rows
     = Inr [\<lparr>total_races = 32, wins = 1, win_rate = 313 / 100, avg_win_odds = Some (3 / 2),
             roi = Some (469 / 100), roi_rank_of = Rank_D, jockey_key = sample_jockey_key,
             top3 = 1, top3_rate = 313 / 100\<rparr>]"
  "calculate_roi (map frame_row thirty_two_rows) = Inr (75 / 16)"
  "calculate_win_rate (map frame_row thirty_two_rows) = Inr (25 / 8)"
  by code_simp+



lemma ten_rows_facts:
  "ten_rows \<noteq> []" "list_all comparable_row ten_rows"
  "jockey_group (sample_jockey_key, ten_rows)
     = Inr \<lparr>total_races = 10, wins = 2, win_rate = 20, avg_win_odds = Some 4, roi = Some 80,
            roi_rank_of = Rank_B, jockey_key = sample_jockey_key, top3 = 2, top3_rate = 20\<rparr>"
  "calculate_roi (map frame_row ten_rows) = Inr 80"
  "calculate_win_rate (map frame_row ten_rows) = Inr 20"
  by code_simp+


text \<open>
  Why the rows must be comparable. The statements cast the position and leave rows out;
  the functions in memory compare the position with the text 01 and count every row they
  are given. A winner written 1 is a win for the statement and none in memory, and a row
  with the excluded position 00 is counted in memory only.
\<close>

lemma incomparable_rows_differ:
  "jockey_course_stats ''01234'' 2024 5 1 [sample_entry ''h1'' ''1'' ''30'']
     = Inr [\<lparr>total_races = 1, wins = 1, win_rate = 100, avg_win_odds = Some 3, roi = Some 300,
             roi_rank_of = Rank_S, jockey_key = sample_jockey_key, top3 = 1, top3_rate = 100\<rparr>]"
  "calculate_win_rate (map frame_row [sample_entry ''h1'' ''1'' ''30'']) = Inr 0"
  "calculate_roi (map frame_row [sample_entry ''h1'' ''1'' ''30'']) = Inr 0"
  "jockey_course_stats ''01234'' 2024 5 1
       [sample_entry ''h1'' ''01'' ''30'', sample_entry ''h2'' ''00'' ''50'']
     = Inr [\<lparr>total_races = 1, wins = 1, win_rate = 100, avg_win_odds = Some 3, roi = Some 300,
             roi_rank_of = Rank_S, jockey_key = sample_jockey_key, top3 = 1, top3_rate = 100\<rparr>]"
  "calculate_win_rate (map frame_row [sample_entry ''h1'' ''01'' ''30'', sample_entry ''h2'' ''00'' ''50''])
     = Inr 50"
  "calculate_roi (map frame_row [sample_entry ''h1'' ''01'' ''30'', sample_entry ''h2'' ''00'' ''50''])
     = Inr 150"
  by code_simp+

end
